theory Spec2Isabelle
  imports Main "HOL-Library.Word" "HOL-Library.AList"
begin

text \<open>
  A model of the e-mail assistant extension: the provider gateway of \<open>providers.js\<close>
  (\<open>callAI\<close>, \<open>streamAI\<close>, \<open>truncate\<close>) and the request session of the side panel
  (\<open>send\<close>, its port listener, \<open>cancelStream\<close>, \<open>addToHistory\<close>,
  \<open>navigateHistory\<close>). What the platform supplies enters as a parameter or an input:
  \<open>JSON.parse\<close>, \<open>encodeURIComponent\<close> and \<open>fetch\<close>, the clock, the values of the
  page's fields and the stored settings. A thrown exception is a value of \<open>js_error\<close>.
\<close>

section \<open>JavaScript strings\<close>

text \<open>
  A JavaScript string is a sequence of UTF-16 code units; \<open>length\<close>, \<open>slice\<close>,
  \<open>startsWith\<close> and \<open>trim\<close> all count and compare code units. The literals of the
  source are ASCII (one code unit each), except the ellipsis of \<open>truncate\<close>.
\<close>

type_synonym jstring = "16 word list"

definition js :: "string \<Rightarrow> jstring" where
  "js s = map of_char s"

definition LF :: "16 word" where
  "LF = 0x0A"

definition CR :: "16 word" where
  "CR = 0x0D"

text \<open>The code unit U+2026 (horizontal ellipsis) that \<open>truncate\<close> appends.\<close>

definition ellipsis :: "16 word" where
  "ellipsis = 0x2026"

text \<open>
  \<open>String.prototype.trim\<close> strips WhiteSpace and LineTerminator code points from both
  ends: TAB, LF, VT, FF, CR, SP, NBSP, U+1680, U+2000..U+200A, U+2028, U+2029, U+202F,
  U+205F, U+3000 and U+FEFF.
\<close>

definition isWhiteSpace :: "16 word \<Rightarrow> bool" where
  "isWhiteSpace c \<longleftrightarrow>
     c = 0x09 \<or> c = 0x0A \<or> c = 0x0B \<or> c = 0x0C \<or> c = 0x0D \<or> c = 0x20 \<or> c = 0xA0 \<or>
     c = 0x1680 \<or> (0x2000 \<le> c \<and> c \<le> 0x200A) \<or> c = 0x2028 \<or> c = 0x2029 \<or>
     c = 0x202F \<or> c = 0x205F \<or> c = 0x3000 \<or> c = 0xFEFF"

definition trim :: "jstring \<Rightarrow> jstring" where
  "trim s = rev (dropWhile isWhiteSpace (rev (dropWhile isWhiteSpace s)))"

definition startsWith :: "jstring \<Rightarrow> jstring \<Rightarrow> bool" where
  "startsWith s p \<longleftrightarrow> take (length p) s = p"

definition endsWith :: "jstring \<Rightarrow> jstring \<Rightarrow> bool" where
  "endsWith s p \<longleftrightarrow> length p \<le> length s \<and> drop (length s - length p) s = p"

text \<open>\<open>x || ''\<close> for a value that is a string or absent.\<close>

definition or_empty :: "jstring option \<Rightarrow> jstring" where
  "or_empty x = (case x of None \<Rightarrow> [] | Some s \<Rightarrow> s)"

text \<open>\<open>x || d\<close> for a value that is a string or absent: the empty string is falsy.\<close>

definition or_default :: "jstring option \<Rightarrow> jstring \<Rightarrow> jstring" where
  "or_default x d = (case x of None \<Rightarrow> d | Some s \<Rightarrow> if s = [] then d else s)"

text \<open>Decimal rendering of a non-negative integer, as a template literal prints it.\<close>

function show_nat :: "nat \<Rightarrow> jstring" where
  "show_nat n =
     (if n < 10 then [48 + of_nat n]
      else show_nat (n div 10) @ [48 + of_nat (n mod 10)])"
  by pat_completeness auto
termination
  by (relation "measure id") auto

declare show_nat.simps [simp del]

text \<open>
  \<open>buffer.split(/\r?\n/)\<close>: the separators are LF and CR LF; a CR that no LF follows is
  ordinary text. The result always has at least one element.
\<close>

fun cons_first :: "'a \<Rightarrow> 'a list list \<Rightarrow> 'a list list" where
  "cons_first c [] = [[c]]"
| "cons_first c (p # ps) = (c # p) # ps"

fun split_lines :: "jstring \<Rightarrow> jstring list" where
  "split_lines [] = [[]]"
| "split_lines [c] = (if c = LF then [[], []] else [[c]])"
| "split_lines (c # d # cs) =
     (if c = LF then [] # split_lines (d # cs)
      else if c = CR \<and> d = LF then [] # split_lines cs
      else cons_first c (split_lines (d # cs)))"

section \<open>Settings\<close>

text \<open>
  The flat settings mapping read from \<open>chrome.storage.local\<close>; an absent key is
  \<open>None\<close>.
\<close>

record settings =
  openai_key :: "jstring option"
  anthropic_key :: "jstring option"
  google_key :: "jstring option"
  deepseek_key :: "jstring option"
  azure_api_key :: "jstring option"
  azure_endpoint :: "jstring option"
  azure_deployment :: "jstring option"
  azure_api_version :: "jstring option"

datatype js_error = Error jstring | TypeError | SyntaxError | URIError | Rejected

section \<open>JavaScript values\<close>

text \<open>
  The values \<open>JSON.parse\<close> produces, and \<open>undefined\<close>, which a missing property
  reads as. The code only ever tests a number for truthiness and converts it to a string,
  so a number is kept as its decimal rendering (\<open>Number.prototype.toString\<close>); the two
  zeros both render as \<open>0\<close> and are the only falsy numbers that \<open>JSON.parse\<close> yields.
  An object is the list of its own properties.
\<close>

datatype jsval =
    JUndefined
  | JNull
  | JBool bool
  | JNum jstring
  | JStr jstring
  | JArr "jsval list"
  | JObj "(jstring \<times> jsval) list"

fun truthy :: "jsval \<Rightarrow> bool" where
  "truthy JUndefined = False"
| "truthy JNull = False"
| "truthy (JBool b) = b"
| "truthy (JNum s) = (s \<noteq> js ''0'')"
| "truthy (JStr s) = (s \<noteq> [])"
| "truthy (JArr xs) = True"
| "truthy (JObj kvs) = True"

text \<open>
  Property access \<open>v.k\<close>, for the names the source reads (\<open>error\<close>, \<open>message\<close>,
  \<open>delta\<close>, \<open>text\<close>, \<open>content_block\<close>, \<open>choices\<close>, \<open>candidates\<close>, \<open>content\<close>,
  \<open>parts\<close>): none of them is built into strings, arrays, numbers or booleans or
  inherited from \<open>Object.prototype\<close>, so only an own property of an object is found.
  Reading a property of \<open>null\<close> or \<open>undefined\<close> throws.
\<close>

definition getProp :: "jsval \<Rightarrow> jstring \<Rightarrow> js_error + jsval" where
  "getProp v k =
     (case v of
        JUndefined \<Rightarrow> Inl TypeError
      | JNull \<Rightarrow> Inl TypeError
      | JObj kvs \<Rightarrow> Inr (case map_of kvs k of None \<Rightarrow> JUndefined | Some x \<Rightarrow> x)
      | _ \<Rightarrow> Inr JUndefined)"

text \<open>Optional chaining \<open>v?.k\<close>.\<close>

definition optProp :: "jsval \<Rightarrow> jstring \<Rightarrow> jsval" where
  "optProp v k =
     (case v of
        JObj kvs \<Rightarrow> (case map_of kvs k of None \<Rightarrow> JUndefined | Some x \<Rightarrow> x)
      | _ \<Rightarrow> JUndefined)"

text \<open>
  \<open>v?.[0]\<close>: the first element of an array, the first code unit of a string, the own
  property \<open>0\<close> of an object.
\<close>

definition optIndex0 :: "jsval \<Rightarrow> jsval" where
  "optIndex0 v =
     (case v of
        JArr xs \<Rightarrow> (case xs of [] \<Rightarrow> JUndefined | x # _ \<Rightarrow> x)
      | JStr s \<Rightarrow> (case s of [] \<Rightarrow> JUndefined | c # _ \<Rightarrow> JStr [c])
      | JObj kvs \<Rightarrow> (case map_of kvs (js ''0'') of None \<Rightarrow> JUndefined | Some x \<Rightarrow> x)
      | _ \<Rightarrow> JUndefined)"

text \<open>
  Conversion to a string, as \<open>+=\<close> on a string, a template literal and \<open>join\<close> do it.
  An array is its elements joined by commas, \<open>null\<close> and \<open>undefined\<close> elements
  giving the empty string. An object is \<open>[object Object]\<close>, unless it has an own
  property \<open>toString\<close>: that shadows the inherited method and is not callable, and the
  conversion throws.
\<close>

fun joinStrings :: "jstring \<Rightarrow> jstring list \<Rightarrow> jstring" where
  "joinStrings sep [] = []"
| "joinStrings sep [s] = s"
| "joinStrings sep (s # t # ts) = s @ sep @ joinStrings sep (t # ts)"

fun toString :: "jsval \<Rightarrow> js_error + jstring"
  and elementStrings :: "jsval list \<Rightarrow> js_error + jstring list" where
  "toString JUndefined = Inr (js ''undefined'')"
| "toString JNull = Inr (js ''null'')"
| "toString (JBool b) = Inr (if b then js ''true'' else js ''false'')"
| "toString (JNum s) = Inr s"
| "toString (JStr s) = Inr s"
| "toString (JArr xs) =
     (case elementStrings xs of Inl e \<Rightarrow> Inl e | Inr ss \<Rightarrow> Inr (joinStrings (js '','') ss))"
| "toString (JObj kvs) =
     (if js ''toString'' \<in> fst ` set kvs then Inl TypeError
      else Inr (js ''[object Object]''))"
| "elementStrings [] = Inr []"
| "elementStrings (x # xs) =
     (case (if x = JUndefined \<or> x = JNull then Inr [] else toString x) of
        Inl e \<Rightarrow> Inl e
      | Inr s \<Rightarrow> (case elementStrings xs of Inl e \<Rightarrow> Inl e | Inr ss \<Rightarrow> Inr (s # ss)))"

text \<open>\<open>Array.prototype.join(sep)\<close>.\<close>

definition joinValues :: "jstring \<Rightarrow> jsval list \<Rightarrow> js_error + jstring" where
  "joinValues sep xs =
     (case elementStrings xs of Inl e \<Rightarrow> Inl e | Inr ss \<Rightarrow> Inr (joinStrings sep ss))"

text \<open>
  \<open>(v || []).map(...)\<close>: a falsy value gives the empty array; a truthy value that is
  not an array has no callable \<open>map\<close>, and the call throws.
\<close>

definition orEmptyArray :: "jsval \<Rightarrow> js_error + jsval list" where
  "orEmptyArray v =
     (if \<not> truthy v then Inr []
      else case v of JArr xs \<Rightarrow> Inr xs | _ \<Rightarrow> Inl TypeError)"

text \<open>\<open>parts.map(p => p?.text).filter(Boolean)\<close>\<close>

definition partTexts :: "jsval list \<Rightarrow> jsval list" where
  "partTexts parts = filter truthy (map (\<lambda>p. optProp p (js ''text'')) parts)"

text \<open>The string a value converts to; empty where the conversion throws.\<close>

definition stringOf :: "jsval \<Rightarrow> jstring" where
  "stringOf v = (case toString v of Inl e \<Rightarrow> [] | Inr s \<Rightarrow> s)"

section \<open>providers.js\<close>

subsection \<open>The platform\<close>

text \<open>
  \<open>JSON.parse\<close>, \<open>encodeURIComponent\<close> and \<open>fetch\<close> belong to the platform and are
  parameters of the model. \<open>JSON.parse\<close> and \<open>encodeURIComponent\<close> return \<open>None\<close>
  where they throw; \<open>fetch\<close> returns \<open>None\<close> where its promise rejects.
  A response has its status, the text \<open>resp.text()\<close> resolves to (\<open>None\<close> where it
  rejects) and, when it has a body, the sequence of reads of the body's reader before
  \<open>done\<close>. A read gives the text that the streaming \<open>TextDecoder\<close> produces for the
  chunk, or rejects.
\<close>

datatype read = Chunk jstring | ReadFails

record request =
  url :: jstring
  headers :: "(jstring \<times> jstring) list"
  body :: jsval

record response =
  resp_status :: nat
  resp_text :: "jstring option"
  resp_reader :: "read list option"

record platform =
  JSON_parse :: "jstring \<Rightarrow> jsval option"
  encodeURIComponent :: "jstring \<Rightarrow> jstring option"
  fetch :: "request \<Rightarrow> response option"

definition resp_ok :: "response \<Rightarrow> bool" where
  "resp_ok resp \<longleftrightarrow> 200 \<le> resp_status resp \<and> resp_status resp \<le> 299"

definition safeText :: "response \<Rightarrow> jstring" where
  "safeText resp = (case resp_text resp of None \<Rightarrow> [] | Some t \<Rightarrow> t)"

text \<open>\<open>resp.json()\<close>: the body text, parsed.\<close>

definition resp_json :: "platform \<Rightarrow> response \<Rightarrow> js_error + jsval" where
  "resp_json pf resp =
     (case resp_text resp of
        None \<Rightarrow> Inl Rejected
      | Some t \<Rightarrow> (case JSON_parse pf t of None \<Rightarrow> Inl SyntaxError | Some v \<Rightarrow> Inr v))"

text \<open>\<open>truncate\<close> of the source (the name is taken by the record package).\<close>

definition truncate_str :: "jstring \<Rightarrow> nat \<Rightarrow> jstring" where
  "truncate_str s n =
     (if s = [] then []
      else if length s > n then take n s @ [ellipsis] else s)"

subsection \<open>Arguments and requests\<close>

record params =
  arg_provider :: jstring
  arg_model :: "jstring option"
  arg_prompt :: jstring
  arg_systemPrompt :: "jstring option"
  arg_cfg :: settings
  arg_onDelta :: bool

text \<open>What a call did: the requests it passed to \<open>fetch\<close>, the values it passed to
  \<open>onDelta\<close>, in order, and what it returned or threw.\<close>

record 'a outcome =
  fetched :: "request list"
  delivered :: "jsval list"
  result :: "js_error + 'a"

definition sysDefault :: "params \<Rightarrow> jstring" where
  "sysDefault a =
     or_default (arg_systemPrompt a) (js ''You are a helpful assistant. Return concise results.'')"

definition azureEndpoint :: "settings \<Rightarrow> jstring" where
  "azureEndpoint c = trim (or_empty (azure_endpoint c))"

definition azureDeployment :: "settings \<Rightarrow> jstring" where
  "azureDeployment c = trim (or_empty (azure_deployment c))"

definition azureApiVersion :: "settings \<Rightarrow> jstring" where
  "azureApiVersion c = trim (or_default (azure_api_version c) (js ''2024-02-01''))"

definition jsonHeader :: "jstring \<times> jstring" where
  "jsonHeader = (js ''Content-Type'', js ''application/json'')"

definition chatMessages :: "jstring \<Rightarrow> jstring \<Rightarrow> jsval" where
  "chatMessages sys prompt =
     JArr [JObj [(js ''role'', JStr (js ''system'')), (js ''content'', JStr sys)],
           JObj [(js ''role'', JStr (js ''user'')), (js ''content'', JStr prompt)]]"

text \<open>The Gemini request body, the same in \<open>callAI\<close> and \<open>streamAI\<close>.\<close>

definition geminiBody :: "jstring \<Rightarrow> jstring \<Rightarrow> jsval" where
  "geminiBody sys prompt =
     JObj [(js ''contents'',
            JArr [JObj [(js ''role'', JStr (js ''user'')),
                        (js ''parts'', JArr [JObj [(js ''text'', JStr sys)],
                                             JObj [(js ''text'', JStr prompt)]])]]),
           (js ''generationConfig'', JObj [(js ''temperature'', JNum (js ''0.7''))])]"

text \<open>\<open>model || undefined\<close>\<close>

definition modelOrUndefined :: "jstring option \<Rightarrow> jsval" where
  "modelOrUndefined m =
     (case m of None \<Rightarrow> JUndefined | Some s \<Rightarrow> if s = [] then JUndefined else JStr s)"

definition azureUrl :: "platform \<Rightarrow> settings \<Rightarrow> js_error + jstring" where
  "azureUrl pf c =
     (let base = (if endsWith (azureEndpoint c) (js ''/'') then azureEndpoint c
                  else azureEndpoint c @ js ''/'')
      in case encodeURIComponent pf (azureApiVersion c) of
           None \<Rightarrow> Inl URIError
         | Some v \<Rightarrow> Inr (base @ js ''openai/deployments/'' @ azureDeployment c @
                          js ''/chat/completions?api-version='' @ v))"

definition geminiUrl :: "platform \<Rightarrow> jstring \<Rightarrow> jstring \<Rightarrow> jstring \<Rightarrow> jstring \<Rightarrow> js_error + jstring" where
  "geminiUrl pf mdl action googleKey suffix =
     (case encodeURIComponent pf mdl of
        None \<Rightarrow> Inl URIError
      | Some m \<Rightarrow>
          (case encodeURIComponent pf googleKey of
             None \<Rightarrow> Inl URIError
           | Some k \<Rightarrow> Inr (js ''https://generativelanguage.googleapis.com/v1beta/models/'' @ m @
                            js '':'' @ action @ js ''?key='' @ k @ suffix)))"

text \<open>The \<open>switch\<close> of \<open>callAI\<close>: the error it throws, or the request it builds.\<close>

definition callAI_request :: "platform \<Rightarrow> params \<Rightarrow> js_error + request" where
  "callAI_request pf a =
     (let c = arg_cfg a;
          openaiKey = or_empty (openai_key c);
          anthropicKey = or_empty (anthropic_key c);
          googleKey = or_empty (google_key c);
          deepseekKey = or_empty (deepseek_key c);
          azureKey = or_empty (azure_api_key c)
      in
      if arg_provider a = js ''azure'' then
        (if azureEndpoint c = [] \<or> azureKey = [] \<or> azureDeployment c = [] then
           Inl (Error (js ''Azure configuration is incomplete. Set endpoint, deployment, and API key in Settings.''))
         else if \<not> startsWith (azureEndpoint c) (js ''https://'') then
           Inl (Error (js ''Azure endpoint must use HTTPS. Please update your endpoint URL.''))
         else case azureUrl pf c of
             Inl e \<Rightarrow> Inl e
           | Inr u \<Rightarrow> Inr \<lparr> url = u,
                 headers = [jsonHeader, (js ''api-key'', azureKey)],
                 body = JObj [(js ''messages'', chatMessages (sysDefault a) (arg_prompt a)),
                              (js ''model'', modelOrUndefined (arg_model a)),
                              (js ''temperature'', JNum (js ''0.7''))] \<rparr>)
      else if arg_provider a = js ''openai'' then
        (if openaiKey = [] then Inl (Error (js ''OpenAI API key not set. Add it in Settings.''))
         else Inr \<lparr> url = js ''https://api.openai.com/v1/chat/completions'',
                 headers = [jsonHeader, (js ''Authorization'', js ''Bearer '' @ openaiKey)],
                 body = JObj [(js ''model'', JStr (or_default (arg_model a) (js ''gpt-4o-mini''))),
                              (js ''messages'', chatMessages (sysDefault a) (arg_prompt a)),
                              (js ''temperature'', JNum (js ''0.7''))] \<rparr>)
      else if arg_provider a = js ''anthropic'' then
        (if anthropicKey = [] then
           Inl (Error (js ''Anthropic API key not set. Add it in Settings.''))
         else Inr \<lparr> url = js ''https://api.anthropic.com/v1/messages'',
                 headers = [jsonHeader, (js ''x-api-key'', anthropicKey),
                            (js ''anthropic-version'', js ''2023-06-01'')],
                 body = JObj [(js ''model'',
                                JStr (or_default (arg_model a) (js ''claude-3-5-sonnet-20241022''))),
                              (js ''max_tokens'', JNum (js ''4096'')),
                              (js ''system'', JStr (sysDefault a)),
                              (js ''messages'',
                                JArr [JObj [(js ''role'', JStr (js ''user'')),
                                            (js ''content'', JStr (arg_prompt a))]])] \<rparr>)
      else if arg_provider a = js ''google'' then
        (if googleKey = [] then
           Inl (Error (js ''Google Gemini API key not set. Add it in Settings.''))
         else case geminiUrl pf (or_default (arg_model a) (js ''gemini-1.5-flash''))
                    (js ''generateContent'') googleKey [] of
             Inl e \<Rightarrow> Inl e
           | Inr u \<Rightarrow> Inr \<lparr> url = u, headers = [jsonHeader],
                 body = geminiBody (sysDefault a) (arg_prompt a) \<rparr>)
      else
        (if deepseekKey = [] then
           Inl (Error (js ''DeepSeek API key not set. Add it in Settings.''))
         else Inr \<lparr> url = js ''https://api.deepseek.com/chat/completions'',
                 headers = [jsonHeader, (js ''Authorization'', js ''Bearer '' @ deepseekKey)],
                 body = JObj [(js ''model'', JStr (or_default (arg_model a) (js ''deepseek-chat''))),
                              (js ''messages'', chatMessages (sysDefault a) (arg_prompt a)),
                              (js ''temperature'', JNum (js ''0.7'')),
                              (js ''stream'', JBool False)] \<rparr>))"

text \<open>The \<open>switch\<close> of \<open>streamAI\<close>.\<close>

definition streamAI_request :: "platform \<Rightarrow> params \<Rightarrow> js_error + request" where
  "streamAI_request pf a =
     (let c = arg_cfg a;
          openaiKey = or_empty (openai_key c);
          anthropicKey = or_empty (anthropic_key c);
          googleKey = or_empty (google_key c);
          deepseekKey = or_empty (deepseek_key c);
          azureKey = or_empty (azure_api_key c)
      in
      if arg_provider a = js ''azure'' then
        (if azureEndpoint c = [] \<or> azureKey = [] \<or> azureDeployment c = [] then
           Inl (Error (js ''Azure configuration is incomplete.''))
         else if \<not> startsWith (azureEndpoint c) (js ''https://'') then
           Inl (Error (js ''Azure endpoint must use HTTPS.''))
         else case azureUrl pf c of
             Inl e \<Rightarrow> Inl e
           | Inr u \<Rightarrow> Inr \<lparr> url = u,
                 headers = [jsonHeader, (js ''api-key'', azureKey)],
                 body = JObj [(js ''model'', modelOrUndefined (arg_model a)),
                              (js ''messages'', chatMessages (sysDefault a) (arg_prompt a)),
                              (js ''temperature'', JNum (js ''0.7'')),
                              (js ''stream'', JBool True)] \<rparr>)
      else if arg_provider a = js ''openai'' then
        (if openaiKey = [] then Inl (Error (js ''OpenAI API key not set.''))
         else Inr \<lparr> url = js ''https://api.openai.com/v1/chat/completions'',
                 headers = [jsonHeader, (js ''Authorization'', js ''Bearer '' @ openaiKey)],
                 body = JObj [(js ''model'', JStr (or_default (arg_model a) (js ''gpt-4o-mini''))),
                              (js ''messages'', chatMessages (sysDefault a) (arg_prompt a)),
                              (js ''temperature'', JNum (js ''0.7'')),
                              (js ''stream'', JBool True)] \<rparr>)
      else if arg_provider a = js ''anthropic'' then
        (if anthropicKey = [] then Inl (Error (js ''Anthropic API key not set.''))
         else Inr \<lparr> url = js ''https://api.anthropic.com/v1/messages'',
                 headers = [jsonHeader, (js ''x-api-key'', anthropicKey),
                            (js ''anthropic-version'', js ''2023-06-01'')],
                 body = JObj [(js ''model'',
                                JStr (or_default (arg_model a) (js ''claude-3-5-sonnet-20241022''))),
                              (js ''max_tokens'', JNum (js ''4096'')),
                              (js ''system'', JStr (sysDefault a)),
                              (js ''messages'',
                                JArr [JObj [(js ''role'', JStr (js ''user'')),
                                            (js ''content'', JStr (arg_prompt a))]]),
                              (js ''stream'', JBool True)] \<rparr>)
      else if arg_provider a = js ''google'' then
        (if googleKey = [] then Inl (Error (js ''Google Gemini API key not set.''))
         else case geminiUrl pf (or_default (arg_model a) (js ''gemini-1.5-flash''))
                    (js ''streamGenerateContent'') googleKey (js ''&alt=sse'') of
             Inl e \<Rightarrow> Inl e
           | Inr u \<Rightarrow> Inr \<lparr> url = u, headers = [jsonHeader],
                 body = geminiBody (sysDefault a) (arg_prompt a) \<rparr>)
      else
        (if deepseekKey = [] then Inl (Error (js ''DeepSeek API key not set.''))
         else Inr \<lparr> url = js ''https://api.deepseek.com/chat/completions'',
                 headers = [jsonHeader, (js ''Authorization'', js ''Bearer '' @ deepseekKey)],
                 body = JObj [(js ''model'', JStr (or_default (arg_model a) (js ''deepseek-chat''))),
                              (js ''messages'', chatMessages (sysDefault a) (arg_prompt a)),
                              (js ''temperature'', JNum (js ''0.7'')),
                              (js ''stream'', JBool True)] \<rparr>))"

subsection \<open>HTTP failures\<close>

text \<open>
  The \<open>try\<close> block of the \<open>!resp.ok\<close> branch, the same in \<open>callAI\<close> and
  \<open>streamAI\<close>: what it appends after the colon, or the error that sends control to the
  \<open>catch\<close> block.
\<close>

definition parsedErrorDetail :: "platform \<Rightarrow> jstring \<Rightarrow> js_error + jstring" where
  "parsedErrorDetail pf errText =
     (case JSON_parse pf errText of
        None \<Rightarrow> Inl SyntaxError
      | Some errData \<Rightarrow>
          (case getProp errData (js ''error'') of
             Inl e \<Rightarrow> Inl e
           | Inr err \<Rightarrow>
               if truthy (optProp err (js ''message'')) then
                 toString (optProp err (js ''message''))
               else
                 (case getProp errData (js ''message'') of
                    Inl e \<Rightarrow> Inl e
                  | Inr m \<Rightarrow> if truthy m then toString m else Inr (truncate_str errText 200))))"

definition errorMessage :: "platform \<Rightarrow> jstring \<Rightarrow> response \<Rightarrow> jstring" where
  "errorMessage pf provider resp =
     (let errText = safeText resp;
          errorMsg = provider @ js '' API error '' @ show_nat (resp_status resp)
      in case parsedErrorDetail pf errText of
           Inr detail \<Rightarrow> errorMsg @ js '': '' @ detail
         | Inl e \<Rightarrow> errorMsg @ js '': '' @ truncate_str errText 200)"

text \<open>\<open>errData.error?.message\<close> and \<open>errData.message\<close> of a parsed error body.\<close>

definition nestedMessage :: "jsval \<Rightarrow> jsval" where
  "nestedMessage errData = optProp (optProp errData (js ''error'')) (js ''message'')"

definition topMessage :: "jsval \<Rightarrow> jsval" where
  "topMessage errData = optProp errData (js ''message'')"

text \<open>What \<open>errorMessage\<close> puts after the colon.\<close>

definition errorDetail :: "platform \<Rightarrow> jstring \<Rightarrow> jstring" where
  "errorDetail pf errText =
     (case parsedErrorDetail pf errText of Inr detail \<Rightarrow> detail | Inl e \<Rightarrow> truncate_str errText 200)"

subsection \<open>callAI\<close>

text \<open>The text of a Gemini response body, as \<open>callAI\<close> extracts it.\<close>

definition googleCallText :: "jsval \<Rightarrow> js_error + jstring" where
  "googleCallText data =
     (let candidate = optIndex0 (optProp data (js ''candidates''))
      in case orEmptyArray (optProp (optProp candidate (js ''content'')) (js ''parts'')) of
           Inl e \<Rightarrow> Inl e
         | Inr parts \<Rightarrow> joinValues [LF] (partTexts parts))"

definition normalize :: "jstring \<Rightarrow> jsval \<Rightarrow> js_error + jsval" where
  "normalize provider data =
     (if provider = js ''openai'' \<or> provider = js ''deepseek'' \<or> provider = js ''azure'' then
        (let v = optProp (optProp (optIndex0 (optProp data (js ''choices''))) (js ''message''))
                   (js ''content'')
         in Inr (if truthy v then v else JStr []))
      else if provider = js ''anthropic'' then
        (case orEmptyArray (optProp data (js ''content'')) of
           Inl e \<Rightarrow> Inl e
         | Inr parts \<Rightarrow>
             (case joinValues [LF] (partTexts parts) of
                Inl e \<Rightarrow> Inl e
              | Inr t \<Rightarrow> Inr (JStr t)))
      else if provider = js ''google'' then
        (case googleCallText data of Inl e \<Rightarrow> Inl e | Inr t \<Rightarrow> Inr (JStr t))
      else Inr (JStr []))"

definition callAI :: "platform \<Rightarrow> params \<Rightarrow> jsval outcome" where
  "callAI pf a =
     (case callAI_request pf a of
        Inl e \<Rightarrow> \<lparr> fetched = [], delivered = [], result = Inl e \<rparr>
      | Inr req \<Rightarrow>
          (case fetch pf req of
             None \<Rightarrow> \<lparr> fetched = [req], delivered = [], result = Inl Rejected \<rparr>
           | Some resp \<Rightarrow>
               if \<not> resp_ok resp then
                 \<lparr> fetched = [req], delivered = [],
                   result = Inl (Error (errorMessage pf (arg_provider a) resp)) \<rparr>
               else
                 (case resp_json pf resp of
                    Inl e \<Rightarrow> \<lparr> fetched = [req], delivered = [], result = Inl e \<rparr>
                  | Inr data \<Rightarrow>
                      \<lparr> fetched = [req], delivered = [],
                        result = normalize (arg_provider a) data \<rparr>)))"

subsection \<open>streamAI\<close>

record stream_state =
  buffer :: jstring
  full :: jstring
  deltas :: "jsval list"

definition anthropicDelta :: "jsval \<Rightarrow> jsval" where
  "anthropicDelta evt =
     (let a = optProp (optProp evt (js ''delta'')) (js ''text'');
          b = optProp (optProp evt (js ''content_block'')) (js ''text'')
      in if truthy a then a else if truthy b then b else JStr [])"

definition googleStreamText :: "jsval \<Rightarrow> js_error + jstring" where
  "googleStreamText evt =
     (let candidate = optIndex0 (optProp evt (js ''candidates''))
      in case orEmptyArray (optProp (optProp candidate (js ''content'')) (js ''parts'')) of
           Inl e \<Rightarrow> Inl e
         | Inr parts \<Rightarrow> joinValues [] (partTexts parts))"

text \<open>
  The texts both Gemini extractions select: the truthy \<open>text\<close> values of
  \<open>candidates[0].content.parts\<close>, in order.
\<close>

definition googleTexts :: "jsval \<Rightarrow> js_error + jsval list" where
  "googleTexts v =
     (case orEmptyArray (optProp (optProp (optIndex0 (optProp v (js ''candidates'')))
             (js ''content'')) (js ''parts'')) of
        Inl e \<Rightarrow> Inl e
      | Inr parts \<Rightarrow> Inr (partTexts parts))"

definition openaiDelta :: "jsval \<Rightarrow> jsval" where
  "openaiDelta evt =
     (let t = optProp (optProp (optIndex0 (optProp evt (js ''choices''))) (js ''delta''))
                (js ''content'')
      in if truthy t then t else JStr [])"

text \<open>\<open>if (t) { full += t; if (onDelta) onDelta(t); }\<close>: the value and the string
  appended to \<open>full\<close>, if any; the conversion of \<open>t\<close> may throw.\<close>

definition emit :: "jsval \<Rightarrow> js_error + (jsval \<times> jstring) option" where
  "emit t =
     (if truthy t then
        (case toString t of Inl e \<Rightarrow> Inl e | Inr s \<Rightarrow> Inr (Some (t, s)))
      else Inr None)"

text \<open>The \<open>try\<close> block of the line loop.\<close>

definition tryEvent :: "platform \<Rightarrow> jstring \<Rightarrow> jstring \<Rightarrow> js_error + (jsval \<times> jstring) option" where
  "tryEvent pf provider dataStr =
     (case JSON_parse pf dataStr of
        None \<Rightarrow> Inl SyntaxError
      | Some evt \<Rightarrow>
          if provider = js ''anthropic'' then emit (anthropicDelta evt)
          else if provider = js ''google'' then
            (case googleStreamText evt of Inl e \<Rightarrow> Inl e | Inr t \<Rightarrow> emit (JStr t))
          else emit (openaiDelta evt))"

text \<open>The body of the line loop; the \<open>catch\<close> block only logs.\<close>

definition processLine :: "platform \<Rightarrow> jstring \<Rightarrow> bool \<Rightarrow> stream_state \<Rightarrow> jstring \<Rightarrow> stream_state" where
  "processLine pf provider onDelta st line =
     (let trimmed = trim line in
      if trimmed = [] \<or> \<not> startsWith trimmed (js ''data:'') then st
      else
        let dataStr = trim (drop 5 trimmed) in
        if dataStr = js ''[DONE]'' then st
        else
          (case tryEvent pf provider dataStr of
             Inr (Some (t, s)) \<Rightarrow>
               st\<lparr> full := full st @ s,
                   deltas := deltas st @ (if onDelta then [t] else []) \<rparr>
           | Inr None \<Rightarrow> st
           | Inl e \<Rightarrow> st))"


text \<open>One iteration of the read loop for a chunk of decoded text.\<close>

definition processChunk :: "platform \<Rightarrow> jstring \<Rightarrow> bool \<Rightarrow> stream_state \<Rightarrow> jstring \<Rightarrow> stream_state" where
  "processChunk pf provider onDelta st chunk =
     (let parts = split_lines (buffer st @ chunk)
      in foldl (processLine pf provider onDelta) (st\<lparr> buffer := last parts \<rparr>) (butlast parts))"

text \<open>The read loop: the state when it ends, and the error if a read rejected.\<close>

fun readLoop :: "platform \<Rightarrow> jstring \<Rightarrow> bool \<Rightarrow> stream_state \<Rightarrow> read list \<Rightarrow> stream_state \<times> js_error option" where
  "readLoop pf provider onDelta st [] = (st, None)"
| "readLoop pf provider onDelta st (ReadFails # rs) = (st, Some Rejected)"
| "readLoop pf provider onDelta st (Chunk chunk # rs) =
     readLoop pf provider onDelta (processChunk pf provider onDelta st chunk) rs"

text \<open>
  The accumulated text is the concatenation of the strings of the delivered values; each
  of them is truthy and converts to a string without throwing; for Gemini they are strings.
\<close>

definition accumulates :: "jstring \<Rightarrow> stream_state \<Rightarrow> bool" where
  "accumulates provider st \<longleftrightarrow>
     full st = concat (map stringOf (deltas st)) \<and>
     (\<forall>v \<in> set (deltas st). truthy v \<and> (\<exists>s. toString v = Inr s) \<and>
        (provider = js ''google'' \<longrightarrow> (\<exists>t. v = JStr t)))"

definition streamAI :: "platform \<Rightarrow> params \<Rightarrow> jstring outcome" where
  "streamAI pf a =
     (case streamAI_request pf a of
        Inl e \<Rightarrow> \<lparr> fetched = [], delivered = [], result = Inl e \<rparr>
      | Inr req \<Rightarrow>
          (case fetch pf req of
             None \<Rightarrow> \<lparr> fetched = [req], delivered = [], result = Inl Rejected \<rparr>
           | Some resp \<Rightarrow>
               if \<not> resp_ok resp then
                 \<lparr> fetched = [req], delivered = [],
                   result = Inl (Error (errorMessage pf (arg_provider a) resp)) \<rparr>
               else
                 (case resp_reader resp of
                    None \<Rightarrow>
                      \<lparr> fetched = [req],
                        delivered = (if arg_onDelta a then [JStr (safeText resp)] else []),
                        result = Inr (safeText resp) \<rparr>
                  | Some reads \<Rightarrow>
                      (case readLoop pf (arg_provider a) (arg_onDelta a)
                              \<lparr> buffer = [], full = [], deltas = [] \<rparr> reads of
                         (st, None) \<Rightarrow>
                           \<lparr> fetched = [req], delivered = deltas st, result = Inr (full st) \<rparr>
                       | (st, Some e) \<Rightarrow>
                           \<lparr> fetched = [req], delivered = deltas st, result = Inl e \<rparr>))))"

section \<open>sidepanel.js: request session and response history\<close>

text \<open>
  The module state of the side panel. DOM writes (status line, output box, buttons,
  cost estimate) are rendering only and are not part of the state. Every call of
  \<open>chrome.runtime.connect\<close> gives a fresh port, numbered by \<open>portCount\<close>;
  \<open>ports\<close> holds the ports that are still connected, each with the \<open>raw\<close>
  variable of the listener that \<open>send\<close> registered on it.
\<close>

record panel =
  currentPort :: "nat option"
  isStreaming :: bool
  responseHistory :: "jstring list"
  historyIndex :: int
  currentOriginalText :: jstring
  lastRequestTime :: int
  ports :: "(nat \<times> jstring) list"
  portCount :: nat

definition initial :: panel where
  "initial = \<lparr> currentPort = None, isStreaming = False, responseHistory = [],
     historyIndex = - 1, currentOriginalText = [], lastRequestTime = 0,
     ports = [], portCount = 0 \<rparr>"

definition RATE_LIMIT_MS :: int where
  "RATE_LIMIT_MS = 1000"

text \<open>What \<open>send\<close> reads from the page.\<close>

record dom =
  providerValue :: jstring
  modelValue :: jstring
  inputValue :: jstring
  emailContextValue :: jstring
  promptPreset :: jstring
  customPrompt :: jstring

record start_message =
  msg_provider :: jstring
  msg_model :: jstring
  msg_prompt :: jstring
  msg_systemPrompt :: jstring

datatype effect =
    Toast jstring jstring
  | FocusInput
  | StorageGet
  | OpenSettings
  | Connect nat
  | PostMessage nat start_message
  | Disconnect nat
  | Uncaught js_error

text \<open>The messages the background worker posts on the port.\<close>

datatype message =
    Delta "jstring option"
  | Done "jstring option"
  | Failed jstring
  | Other

text \<open>
  The names every object inherits from \<open>Object.prototype\<close>: looking one of them up
  in an object literal gives a function, which is truthy.
\<close>

definition objectPrototypeKeys :: "jstring list" where
  "objectPrototypeKeys = map js
     [''constructor'', ''hasOwnProperty'', ''isPrototypeOf'', ''propertyIsEnumerable'',
      ''toLocaleString'', ''toString'', ''valueOf'', ''__proto__'',
      ''__defineGetter__'', ''__defineSetter__'', ''__lookupGetter__'', ''__lookupSetter__'']"

text \<open>\<open>cfg.key?.trim()\<close> is truthy.\<close>

definition configured :: "jstring option \<Rightarrow> bool" where
  "configured x = (case x of None \<Rightarrow> False | Some s \<Rightarrow> trim s \<noteq> [])"

definition validateProvider :: "jstring \<Rightarrow> settings \<Rightarrow> bool" where
  "validateProvider provider c =
     (if provider = js ''openai'' then configured (openai_key c)
      else if provider = js ''anthropic'' then configured (anthropic_key c)
      else if provider = js ''google'' then configured (google_key c)
      else if provider = js ''deepseek'' then configured (deepseek_key c)
      else if provider = js ''azure'' then
        configured (azure_api_key c) \<and> configured (azure_endpoint c) \<and>
        configured (azure_deployment c)
      else provider \<in> set objectPrototypeKeys)"

definition getValidationError :: "jstring \<Rightarrow> jstring" where
  "getValidationError provider =
     (if provider = js ''openai'' then
        js ''OpenAI API key not configured. Please add it in Settings.''
      else if provider = js ''anthropic'' then
        js ''Anthropic API key not configured. Please add it in Settings.''
      else if provider = js ''google'' then
        js ''Google Gemini API key not configured. Please add it in Settings.''
      else if provider = js ''deepseek'' then
        js ''DeepSeek API key not configured. Please add it in Settings.''
      else if provider = js ''azure'' then
        js ''Azure OpenAI not fully configured. Please set API key, endpoint, and deployment in Settings.''
      else js ''Provider not configured'')"

definition SYSTEM_PROMPT_default :: jstring where
  "SYSTEM_PROMPT_default = js ''You are a helpful assistant. Return concise results.''"

text \<open>
  \<open>getSystemPrompt\<close>, for the values the preset selector offers; a preset named like a
  member of \<open>Object.prototype\<close> would give the inherited member instead of a string, and
  the selector has no such option.
\<close>

definition getSystemPrompt :: "dom \<Rightarrow> jstring" where
  "getSystemPrompt d =
     (let preset = promptPreset d in
      if preset = js ''custom'' then
        (if trim (customPrompt d) = [] then SYSTEM_PROMPT_default else trim (customPrompt d))
      else if preset = js ''default'' then SYSTEM_PROMPT_default
      else if preset = js ''professional'' then
        js ''You are a professional email writing expert. Focus on clarity, professionalism, and proper business etiquette. Maintain a polished and respectful tone.''
      else if preset = js ''concise'' then
        js ''You are an expert at concise communication. Be direct, brief, and eliminate unnecessary words while maintaining clarity and professionalism.''
      else if preset = js ''friendly'' then
        js ''You are a friendly communication assistant. Use a warm, approachable tone while maintaining professionalism. Be conversational but respectful.''
      else if preset = js ''formal'' then
        js ''You are a formal business communication expert. Use proper formal language, avoid contractions, and maintain a highly professional tone suitable for corporate correspondence.''
      else SYSTEM_PROMPT_default)"

text \<open>
  \<open>buildPrompt\<close>; \<open>send\<close> is only ever called with the five kinds, and any other
  name that is not inherited from \<open>Object.prototype\<close> passes the text through.
\<close>

definition buildPrompt :: "jstring \<Rightarrow> jstring \<Rightarrow> jstring \<Rightarrow> jstring" where
  "buildPrompt emailContext kind text =
     (let context = trim emailContext;
          contextPrefix =
            (if context = [] then []
             else js ''Background Context / Email Chain:'' @ [LF] @ context @ [LF, LF] @
                  js ''---'' @ [LF, LF]);
          email = [LF, LF] @ js ''Email:'' @ [LF] @ text
      in
      if kind = js ''revise'' then
        contextPrefix @ js ''Revise the following email for clarity, conciseness, and a friendly but professional tone. Keep the original meaning. Return only the improved email text.'' @ email
      else if kind = js ''formal'' then
        contextPrefix @ js ''Rewrite the following email in a formal, professional business tone. Use proper formal language and maintain high professionalism.'' @ email
      else if kind = js ''casual'' then
        contextPrefix @ js ''Rewrite the following email in a casual, friendly tone while remaining professional. Be conversational and approachable.'' @ email
      else if kind = js ''shorten'' then
        contextPrefix @ js ''Make the following email more concise. Remove unnecessary words while keeping the key message and maintaining professionalism.'' @ email
      else if kind = js ''expand'' then
        contextPrefix @ js ''Expand the following email with more detail and context. Make it more comprehensive while maintaining clarity and professionalism.'' @ email
      else text)"

definition addToHistory :: "jstring \<Rightarrow> panel \<Rightarrow> panel" where
  "addToHistory text s =
     (let pushed = responseHistory s @ [text];
          kept = (if length pushed > 10 then tl pushed else pushed)
      in s\<lparr> responseHistory := kept, historyIndex := int (length kept) - 1 \<rparr>)"

definition navigateHistory :: "int \<Rightarrow> panel \<Rightarrow> panel" where
  "navigateHistory direction s =
     (if length (responseHistory s) = 0 then s
      else s\<lparr> historyIndex :=
             max 0 (min (int (length (responseHistory s)) - 1) (historyIndex s + direction)) \<rparr>)"

definition rateLimitToast :: effect where
  "rateLimitToast =
     Toast (js ''Please wait a moment before sending another request'') (js ''warning'')"

text \<open>
  \<open>send(kind)\<close> at time \<open>now = Date.now()\<close>, with the page contents \<open>d\<close> and the
  settings \<open>c\<close> that \<open>chrome.storage.local.get\<close> returns. The result is the new
  state and what the call did, in order.
\<close>

definition send :: "int \<Rightarrow> jstring \<Rightarrow> dom \<Rightarrow> settings \<Rightarrow> panel \<Rightarrow> panel \<times> effect list" where
  "send now kind d c s =
     (if now - lastRequestTime s < RATE_LIMIT_MS then (s, [rateLimitToast])
      else
        let s1 = s\<lparr> lastRequestTime := now \<rparr>;
            provider = providerValue d;
            model = trim (modelValue d);
            text = trim (inputValue d)
        in
        if text = [] then
          (s1, [Toast (js ''Please enter some text first'') (js ''warning''), FocusInput])
        else if \<not> validateProvider provider c then
          (s1, [StorageGet, Toast (getValidationError provider) (js ''error''), OpenSettings])
        else
          let prompt = buildPrompt (emailContextValue d) kind text;
              systemPrompt = getSystemPrompt d;
              p = portCount s
          in (s1\<lparr> currentOriginalText := text, isStreaming := True,
                   currentPort := Some p, ports := (p, []) # ports s,
                   portCount := Suc p \<rparr>,
              [StorageGet, Connect p,
               PostMessage p \<lparr> msg_provider = provider, msg_model = model,
                 msg_prompt = prompt, msg_systemPrompt = systemPrompt \<rparr>]))"

text \<open>\<open>if (currentPort) { currentPort.disconnect(); currentPort = null; }\<close>\<close>

definition dropCurrentPort :: "panel \<Rightarrow> panel \<times> effect list" where
  "dropCurrentPort s =
     (case currentPort s of
        None \<Rightarrow> (s, [])
      | Some q \<Rightarrow> (s\<lparr> ports := filter (\<lambda>e. fst e \<noteq> q) (ports s), currentPort := None \<rparr>,
                   [Disconnect q]))"

text \<open>
  The listener that \<open>send\<close> registers on port \<open>p\<close>. A disconnected port dispatches
  no events. In the \<open>done\<close> branch \<open>currentPort.disconnect()\<close> is not guarded, so it
  throws when \<open>currentPort\<close> is \<open>null\<close>.
\<close>

definition onMessage :: "nat \<Rightarrow> message \<Rightarrow> panel \<Rightarrow> panel \<times> effect list" where
  "onMessage p msg s =
     (case map_of (ports s) p of
        None \<Rightarrow> (s, [])
      | Some raw \<Rightarrow>
          (case msg of
             Delta t \<Rightarrow>
               (s\<lparr> ports := AList.update p (raw @ or_empty t) (ports s) \<rparr>, [])
           | Done t \<Rightarrow>
               let raw' = or_default t raw;
                   s1 = addToHistory raw'
                          (s\<lparr> ports := AList.update p raw' (ports s), isStreaming := False \<rparr>)
               in (case currentPort s1 of
                     None \<Rightarrow> (s1, [Uncaught TypeError])
                   | Some q \<Rightarrow> dropCurrentPort s1)
           | Failed e \<Rightarrow>
               let s1 = s\<lparr> isStreaming := False \<rparr>;
                   (s2, effs) = dropCurrentPort s1
               in (s2, Toast (js ''Request failed: '' @ e) (js ''error'') # effs)
           | Other \<Rightarrow> (s, [])))"

definition cancelStream :: "panel \<Rightarrow> panel \<times> effect list" where
  "cancelStream s =
     (let (s1, effs) = dropCurrentPort s
      in (s1\<lparr> isStreaming := False \<rparr>, effs @ [Toast (js ''Request cancelled'') (js ''info'')]))"

text \<open>Everything that can happen to the panel, and a run of such events.\<close>

datatype event =
    Send int jstring dom settings
  | Message nat message
  | CancelStream
  | NavigateHistory int

fun step :: "panel \<Rightarrow> event \<Rightarrow> panel" where
  "step s (Send now kind d c) = fst (send now kind d c s)"
| "step s (Message p msg) = fst (onMessage p msg s)"
| "step s CancelStream = fst (cancelStream s)"
| "step s (NavigateHistory direction) = navigateHistory direction s"

definition run :: "panel \<Rightarrow> event list \<Rightarrow> panel" where
  "run s evs = foldl step s evs"

section \<open>Sample inputs\<close>

definition sample_cfg :: settings where
  "sample_cfg = \<lparr> openai_key = Some (js ''sk-test''), anthropic_key = None, google_key = None,
     deepseek_key = None, azure_api_key = None, azure_endpoint = None,
     azure_deployment = None, azure_api_version = None \<rparr>"

definition sample_dom :: dom where
  "sample_dom = \<lparr> providerValue = js ''openai'', modelValue = [], inputValue = js ''Hello'',
     emailContextValue = [], promptPreset = js ''default'', customPrompt = [] \<rparr>"


text \<open>The panel after a request sent at 1700000000000 ms has completed.\<close>

definition completed_panel :: panel where
  "completed_panel = run initial
     [Send 1700000000000 (js ''revise'') sample_dom sample_cfg,
      Message 0 (Done (Some (js ''First reply'')))]"

text \<open>The panel while a second request, sent five seconds later, is streaming.\<close>

definition streaming_panel :: panel where
  "streaming_panel = run initial
     [Send 1700000000000 (js ''revise'') sample_dom sample_cfg,
      Message 0 (Done (Some (js ''First reply''))),
      Send 1700000005000 (js ''formal'') sample_dom sample_cfg]"

definition unconfigured_cfg :: settings where
  "unconfigured_cfg = \<lparr> openai_key = Some (js ''  ''), anthropic_key = None, google_key = None,
     deepseek_key = None, azure_api_key = None, azure_endpoint = None,
     azure_deployment = None, azure_api_version = None \<rparr>"

text \<open>
  A platform for the examples. Its \<open>JSON.parse\<close> knows the event and error texts the
  examples use and rejects every other text; the only other texts the examples give it
  are not JSON. Its \<open>encodeURIComponent\<close> is defined on strings of unreserved characters, which
  it returns as they are; its \<open>fetch\<close> answers every request with the given response.
\<close>

definition sample_JSON_parse :: "jstring \<Rightarrow> jsval option" where
  \<open>sample_JSON_parse = map_of
     [(js ''{"error":{"message":"rate limited"}}'',
         JObj [(js ''error'', JObj [(js ''message'', JStr (js ''rate limited''))])]),
      (js ''{"message":"bad key"}'', JObj [(js ''message'', JStr (js ''bad key''))]),
      (js ''{"error":{"message":{"toString":1}}}'',
         JObj [(js ''error'',
           JObj [(js ''message'', JObj [(js ''toString'', JNum (js ''1''))])])]),
      (js ''{"choices":[{"delta":{"content":"Hel"}}]}'',
         JObj [(js ''choices'', JArr [JObj [(js ''delta'', JObj [(js ''content'', JStr (js ''Hel''))])]])]),
      (js ''{"choices":[{"delta":{"content":[]}}]}'',
         JObj [(js ''choices'', JArr [JObj [(js ''delta'', JObj [(js ''content'', JArr [])])]])]),
      (js ''{"choices":[{"delta":{"content":"lo"}}]}'',
         JObj [(js ''choices'', JArr [JObj [(js ''delta'', JObj [(js ''content'', JStr (js ''lo''))])]])]),
      (js ''{"candidates":[{"content":{"parts":[{"text":"Hel"},{"text":"lo"}]}}]}'',
         JObj [(js ''candidates'', JArr [JObj [(js ''content'',
           JObj [(js ''parts'', JArr [JObj [(js ''text'', JStr (js ''Hel''))],
                                      JObj [(js ''text'', JStr (js ''lo''))]])])]])])]\<close>

text \<open>The characters that \<open>encodeURIComponent\<close> leaves as they are.\<close>

definition unreserved :: "16 word \<Rightarrow> bool" where
  "unreserved c \<longleftrightarrow> (0x41 \<le> c \<and> c \<le> 0x5A) \<or> (0x61 \<le> c \<and> c \<le> 0x7A) \<or>
     (0x30 \<le> c \<and> c \<le> 0x39) \<or> c \<in> set (js ''-_.!~*()'')"

definition sample_encodeURIComponent :: "jstring \<Rightarrow> jstring option" where
  "sample_encodeURIComponent s = (if list_all unreserved s then Some s else None)"

definition sample_platform :: "response \<Rightarrow> platform" where
  "sample_platform resp = \<lparr> JSON_parse = sample_JSON_parse,
     encodeURIComponent = sample_encodeURIComponent, fetch = (\<lambda>req. Some resp) \<rparr>"

definition azure_http_cfg :: settings where
  "azure_http_cfg = \<lparr> openai_key = None, anthropic_key = None, google_key = None,
     deepseek_key = None, azure_api_key = Some (js ''key''),
     azure_endpoint = Some (js ''http://foo.com''),
     azure_deployment = Some (js ''gpt4''), azure_api_version = None \<rparr>"

definition sample_params :: "jstring \<Rightarrow> settings \<Rightarrow> params" where
  "sample_params provider c = \<lparr> arg_provider = provider, arg_model = None, arg_prompt = js ''Hi'',
     arg_systemPrompt = None, arg_cfg = c, arg_onDelta = True \<rparr>"

definition no_body :: response where
  "no_body = \<lparr> resp_status = 204, resp_text = Some [], resp_reader = None \<rparr>"

definition deepseek_cfg :: settings where
  "deepseek_cfg = \<lparr> openai_key = None, anthropic_key = None, google_key = None,
     deepseek_key = Some (js ''dk-1''), azure_api_key = None, azure_endpoint = None,
     azure_deployment = None, azure_api_version = None \<rparr>"

definition empty_cfg :: settings where
  "empty_cfg = \<lparr> openai_key = None, anthropic_key = None, google_key = None,
     deepseek_key = None, azure_api_key = None, azure_endpoint = None,
     azure_deployment = None, azure_api_version = None \<rparr>"

definition rate_limited_body :: jstring where
  \<open>rate_limited_body = js ''{"error":{"message":"rate limited"}}''\<close>

definition rate_limited :: response where
  "rate_limited = \<lparr> resp_status = 429, resp_text = Some rate_limited_body, resp_reader = None \<rparr>"

text \<open>A failure whose body is 201 times the letter x, which is not JSON.\<close>

definition overlong_body :: jstring where
  "overlong_body = replicate 201 0x78"

definition overlong_failure :: response where
  "overlong_failure = \<lparr> resp_status = 500, resp_text = Some overlong_body, resp_reader = None \<rparr>"

text \<open>
  A failure whose nested message is an object with an own property \<open>toString\<close>: it is
  truthy, and converting it to a string throws.
\<close>

definition unconvertible_body :: jstring where
  \<open>unconvertible_body = js ''{"error":{"message":{"toString":1}}}''\<close>

definition unconvertible_failure :: response where
  "unconvertible_failure =
     \<lparr> resp_status = 400, resp_text = Some unconvertible_body, resp_reader = None \<rparr>"

definition bad_key :: response where
  \<open>bad_key = \<lparr> resp_status = 401, resp_text = Some (js ''{"message":"bad key"}''),
     resp_reader = None \<rparr>\<close>

definition two_parts :: jsval where
  "two_parts = JObj [(js ''candidates'', JArr [JObj [(js ''content'',
     JObj [(js ''parts'', JArr [JObj [(js ''text'', JStr (js ''Hel''))],
                                JObj [(js ''text'', JStr (js ''lo''))]])])]])]"

definition one_part :: jsval where
  "one_part = JObj [(js ''candidates'', JArr [JObj [(js ''content'',
     JObj [(js ''parts'', JArr [JObj [(js ''text'', JStr (js ''Hello''))],
                                JObj [(js ''inlineData'', JNull)]])])]])]"

definition sse_stream :: response where
  \<open>sse_stream = \<lparr> resp_status = 200, resp_text = None, resp_reader = Some
     [Chunk (js ''data: {"choices":[{"delta":{"content":"Hel"}}]}'' @ [LF, LF] @ js '': keep-alive'' @ [LF]),
      Chunk (js ''data: {"choices":[{"del''),
      Chunk ([LF] @ js ''data: {"choices":[{"delta":{"content":"lo"}}]}'' @ [CR, LF, CR, LF] @
             js ''data: [DONE]'' @ [LF, LF])] \<rparr>\<close>


definition array_delta_stream :: response where
  \<open>array_delta_stream = \<lparr> resp_status = 200, resp_text = None, resp_reader = Some
     [Chunk (js ''data: {"choices":[{"delta":{"content":[]}}]}'' @ [LF, LF])] \<rparr>\<close>

definition google_cfg :: settings where
  "google_cfg = \<lparr> openai_key = None, anthropic_key = None, google_key = Some (js ''gk-1''),
     deepseek_key = None, azure_api_key = None, azure_endpoint = None,
     azure_deployment = None, azure_api_version = None \<rparr>"

definition gemini_stream :: response where
  \<open>gemini_stream = \<lparr> resp_status = 200, resp_text = None, resp_reader = Some
     [Chunk (js ''data: {"candidates":[{"content":{"parts":[{"text":"Hel"},{"text":"lo"}]}}]}'' @
             [CR, LF, CR, LF])] \<rparr>\<close>

section \<open>Evaluation of the samples\<close>

lemmas sample_simps = run_def send_def initial_def RATE_LIMIT_MS_def sample_dom_def sample_cfg_def trim_def isWhiteSpace_def js_def validateProvider_def configured_def Let_def onMessage_def or_empty_def or_default_def addToHistory_def dropCurrentPort_def cancelStream_def streaming_panel_def

lemmas azure_sample_simps = sample_params_def azure_http_cfg_def azureEndpoint_def
  azureDeployment_def or_empty_def trim_def isWhiteSpace_def js_def startsWith_def

lemma show_nat_429: "show_nat 429 = js ''429''"
  by (simp add: show_nat.simps [of 429] show_nat.simps [of 42] show_nat.simps [of 4] js_def)

lemma show_nat_500: "show_nat 500 = js ''500''"
  by (simp add: show_nat.simps [of 500] show_nat.simps [of 50] show_nat.simps [of 5] js_def)

section \<open>Properties of providers.js\<close>

subsection \<open>Configuration errors and requests\<close>

lemma callAI_config_error:
  "callAI_request pf a = Inl e \<Longrightarrow> fetched (callAI pf a) = [] \<and> result (callAI pf a) = Inl e"
  by (simp add: callAI_def)

lemma streamAI_config_error:
  "streamAI_request pf a = Inl e \<Longrightarrow> fetched (streamAI pf a) = [] \<and> result (streamAI pf a) = Inl e"
  by (simp add: streamAI_def)

lemma callAI_fetched:
  "callAI_request pf a = Inr req \<Longrightarrow> fetched (callAI pf a) = [req]"
  by (simp add: callAI_def split: option.splits sum.splits)

lemma streamAI_fetched:
  "streamAI_request pf a = Inr req \<Longrightarrow> fetched (streamAI pf a) = [req]"
  by (simp add: streamAI_def split: option.splits sum.splits prod.splits)

lemma callAI_request_azure_invalid:
  assumes "arg_provider a = js ''azure''"
    and "azureEndpoint (arg_cfg a) = [] \<or> or_empty (azure_api_key (arg_cfg a)) = [] \<or>
         azureDeployment (arg_cfg a) = [] \<or>
         \<not> startsWith (azureEndpoint (arg_cfg a)) (js ''https://'')"
  shows "callAI_request pf a = Inl (Error
       (if azureEndpoint (arg_cfg a) = [] \<or> or_empty (azure_api_key (arg_cfg a)) = [] \<or>
           azureDeployment (arg_cfg a) = []
        then js ''Azure configuration is incomplete. Set endpoint, deployment, and API key in Settings.''
        else js ''Azure endpoint must use HTTPS. Please update your endpoint URL.''))"
  using assms by (auto simp: callAI_request_def Let_def)

lemma streamAI_request_azure_invalid:
  assumes "arg_provider a = js ''azure''"
    and "azureEndpoint (arg_cfg a) = [] \<or> or_empty (azure_api_key (arg_cfg a)) = [] \<or>
         azureDeployment (arg_cfg a) = [] \<or>
         \<not> startsWith (azureEndpoint (arg_cfg a)) (js ''https://'')"
  shows "streamAI_request pf a = Inl (Error
       (if azureEndpoint (arg_cfg a) = [] \<or> or_empty (azure_api_key (arg_cfg a)) = [] \<or>
           azureDeployment (arg_cfg a) = []
        then js ''Azure configuration is incomplete.''
        else js ''Azure endpoint must use HTTPS.''))"
  using assms by (auto simp: streamAI_request_def Let_def)

text \<open>
  C4. For provider \<open>azure\<close>, when the endpoint, the API key or the deployment is empty, or
  the endpoint does not start with \<open>https://\<close>, both \<open>callAI\<close> and \<open>streamAI\<close> throw
  the configuration error and never call \<open>fetch\<close>. Endpoint and deployment are the
  settings as the code resolves them: absent is empty, and surrounding white space is
  stripped.
\<close>

theorem azure_config_error_before_fetch:
  assumes "arg_provider a = js ''azure''"
    and "azureEndpoint (arg_cfg a) = [] \<or> or_empty (azure_api_key (arg_cfg a)) = [] \<or>
         azureDeployment (arg_cfg a) = [] \<or>
         \<not> startsWith (azureEndpoint (arg_cfg a)) (js ''https://'')"
  shows "fetched (callAI pf a) = [] \<and> fetched (streamAI pf a) = [] \<and>
     result (callAI pf a) = Inl (Error
       (if azureEndpoint (arg_cfg a) = [] \<or> or_empty (azure_api_key (arg_cfg a)) = [] \<or>
           azureDeployment (arg_cfg a) = []
        then js ''Azure configuration is incomplete. Set endpoint, deployment, and API key in Settings.''
        else js ''Azure endpoint must use HTTPS. Please update your endpoint URL.'')) \<and>
     result (streamAI pf a) = Inl (Error
       (if azureEndpoint (arg_cfg a) = [] \<or> or_empty (azure_api_key (arg_cfg a)) = [] \<or>
           azureDeployment (arg_cfg a) = []
        then js ''Azure configuration is incomplete.''
        else js ''Azure endpoint must use HTTPS.''))"
  using callAI_config_error [OF callAI_request_azure_invalid [OF assms], of pf]
    streamAI_config_error [OF streamAI_request_azure_invalid [OF assms], of pf]
  by simp

theorem azure_config_error_before_fetch_witness:
  "arg_provider (sample_params (js ''azure'') azure_http_cfg) = js ''azure'' \<and>
   azureEndpoint azure_http_cfg = js ''http://foo.com'' \<and>
   \<not> startsWith (azureEndpoint azure_http_cfg) (js ''https://'') \<and>
   fetched (callAI (sample_platform no_body) (sample_params (js ''azure'') azure_http_cfg)) = [] \<and>
   fetched (streamAI (sample_platform no_body) (sample_params (js ''azure'') azure_http_cfg)) = [] \<and>
   result (callAI (sample_platform no_body) (sample_params (js ''azure'') azure_http_cfg)) =
     Inl (Error (js ''Azure endpoint must use HTTPS. Please update your endpoint URL.'')) \<and>
   result (streamAI (sample_platform no_body) (sample_params (js ''azure'') azure_http_cfg)) =
     Inl (Error (js ''Azure endpoint must use HTTPS.''))"
proof -
  have p: "arg_provider (sample_params (js ''azure'') azure_http_cfg) = js ''azure''"
    by (simp add: sample_params_def)
  have e: "azureEndpoint azure_http_cfg = js ''http://foo.com''"
    by (simp add: azure_sample_simps)
  have k: "or_empty (azure_api_key azure_http_cfg) \<noteq> []"
    by (simp add: azure_sample_simps)
  have d: "azureDeployment azure_http_cfg \<noteq> []"
    by (simp add: azure_sample_simps)
  have h: "\<not> startsWith (azureEndpoint azure_http_cfg) (js ''https://'')"
    by (simp add: azure_sample_simps)
  have c: "arg_cfg (sample_params (js ''azure'') azure_http_cfg) = azure_http_cfg"
    by (simp add: sample_params_def)
  have ne: "js ''http://foo.com'' \<noteq> []" by (simp add: js_def)
  have q: "azureEndpoint (arg_cfg (sample_params (js ''azure'') azure_http_cfg)) = [] \<or>
      or_empty (azure_api_key (arg_cfg (sample_params (js ''azure'') azure_http_cfg))) = [] \<or>
      azureDeployment (arg_cfg (sample_params (js ''azure'') azure_http_cfg)) = [] \<or>
      \<not> startsWith (azureEndpoint (arg_cfg (sample_params (js ''azure'') azure_http_cfg)))
          (js ''https://'')"
    using h c by simp
  show ?thesis
    using azure_config_error_before_fetch [OF p q, of "sample_platform no_body"] p e k d h c ne
    by simp
qed

lemma callAI_request_default:
  assumes "arg_provider a \<notin> {js ''openai'', js ''anthropic'', js ''google'', js ''azure''}"
  shows "callAI_request pf a =
    (if or_empty (deepseek_key (arg_cfg a)) = [] then
       Inl (Error (js ''DeepSeek API key not set. Add it in Settings.''))
     else Inr \<lparr> url = js ''https://api.deepseek.com/chat/completions'',
       headers = [jsonHeader,
                  (js ''Authorization'', js ''Bearer '' @ or_empty (deepseek_key (arg_cfg a)))],
       body = JObj [(js ''model'', JStr (or_default (arg_model a) (js ''deepseek-chat''))),
                    (js ''messages'', chatMessages (sysDefault a) (arg_prompt a)),
                    (js ''temperature'', JNum (js ''0.7'')),
                    (js ''stream'', JBool False)] \<rparr>)"
  using assms by (simp add: callAI_request_def Let_def)

lemma streamAI_request_default:
  assumes "arg_provider a \<notin> {js ''openai'', js ''anthropic'', js ''google'', js ''azure''}"
  shows "streamAI_request pf a =
    (if or_empty (deepseek_key (arg_cfg a)) = [] then
       Inl (Error (js ''DeepSeek API key not set.''))
     else Inr \<lparr> url = js ''https://api.deepseek.com/chat/completions'',
       headers = [jsonHeader,
                  (js ''Authorization'', js ''Bearer '' @ or_empty (deepseek_key (arg_cfg a)))],
       body = JObj [(js ''model'', JStr (or_default (arg_model a) (js ''deepseek-chat''))),
                    (js ''messages'', chatMessages (sysDefault a) (arg_prompt a)),
                    (js ''temperature'', JNum (js ''0.7'')),
                    (js ''stream'', JBool True)] \<rparr>)"
  using assms by (simp add: streamAI_request_def Let_def)

text \<open>
  C10. For every provider string other than \<open>openai\<close>, \<open>anthropic\<close>, \<open>google\<close> and
  \<open>azure\<close>, \<open>callAI\<close> and \<open>streamAI\<close> throw the DeepSeek configuration error without
  calling \<open>fetch\<close> when the DeepSeek key is empty, and otherwise pass to \<open>fetch\<close> exactly
  one request: to the DeepSeek chat-completions URL, with the key as Bearer token and the
  model defaulting to \<open>deepseek-chat\<close>.
\<close>

theorem unknown_provider_takes_deepseek_branch:
  assumes "arg_provider a \<notin> {js ''openai'', js ''anthropic'', js ''google'', js ''azure''}"
  shows "(or_empty (deepseek_key (arg_cfg a)) = [] \<longrightarrow>
       fetched (callAI pf a) = [] \<and>
       result (callAI pf a) = Inl (Error (js ''DeepSeek API key not set. Add it in Settings.'')) \<and>
       fetched (streamAI pf a) = [] \<and>
       result (streamAI pf a) = Inl (Error (js ''DeepSeek API key not set.''))) \<and>
     (or_empty (deepseek_key (arg_cfg a)) \<noteq> [] \<longrightarrow>
       fetched (callAI pf a) =
         [\<lparr> url = js ''https://api.deepseek.com/chat/completions'',
            headers = [jsonHeader,
              (js ''Authorization'', js ''Bearer '' @ or_empty (deepseek_key (arg_cfg a)))],
            body = JObj [(js ''model'', JStr (or_default (arg_model a) (js ''deepseek-chat''))),
                         (js ''messages'', chatMessages (sysDefault a) (arg_prompt a)),
                         (js ''temperature'', JNum (js ''0.7'')),
                         (js ''stream'', JBool False)] \<rparr>] \<and>
       fetched (streamAI pf a) =
         [\<lparr> url = js ''https://api.deepseek.com/chat/completions'',
            headers = [jsonHeader,
              (js ''Authorization'', js ''Bearer '' @ or_empty (deepseek_key (arg_cfg a)))],
            body = JObj [(js ''model'', JStr (or_default (arg_model a) (js ''deepseek-chat''))),
                         (js ''messages'', chatMessages (sysDefault a) (arg_prompt a)),
                         (js ''temperature'', JNum (js ''0.7'')),
                         (js ''stream'', JBool True)] \<rparr>])"
proof (cases "or_empty (deepseek_key (arg_cfg a)) = []")
  case True
  then show ?thesis
    using callAI_request_default [OF assms, of pf] streamAI_request_default [OF assms, of pf]
    by (simp add: callAI_config_error streamAI_config_error)
next
  case False
  then show ?thesis
    using callAI_request_default [OF assms, of pf] streamAI_request_default [OF assms, of pf]
    by (simp add: callAI_fetched streamAI_fetched)
qed

theorem unknown_provider_takes_deepseek_branch_witness:
  "js ''mistral'' \<notin> {js ''openai'', js ''anthropic'', js ''google'', js ''azure''} \<and>
   or_empty (deepseek_key empty_cfg) = [] \<and>
   or_empty (deepseek_key deepseek_cfg) \<noteq> [] \<and>
   fetched (streamAI (sample_platform no_body) (sample_params (js ''mistral'') empty_cfg)) = [] \<and>
   result (streamAI (sample_platform no_body) (sample_params (js ''mistral'') empty_cfg)) =
     Inl (Error (js ''DeepSeek API key not set.'')) \<and>
   result (callAI (sample_platform no_body) (sample_params (js ''mistral'') empty_cfg)) =
     Inl (Error (js ''DeepSeek API key not set. Add it in Settings.'')) \<and>
   map url (fetched (streamAI (sample_platform no_body) (sample_params (js ''mistral'') deepseek_cfg)))
     = [js ''https://api.deepseek.com/chat/completions''] \<and>
   map headers (fetched (callAI (sample_platform no_body) (sample_params (js ''mistral'') deepseek_cfg)))
     = [[(js ''Content-Type'', js ''application/json''), (js ''Authorization'', js ''Bearer dk-1'')]] \<and>
   map (\<lambda>r. optProp (body r) (js ''model''))
       (fetched (callAI (sample_platform no_body) (sample_params (js ''mistral'') deepseek_cfg)))
     = [JStr (js ''deepseek-chat'')]"
proof -
  have p: "arg_provider (sample_params (js ''mistral'') c) \<notin>
      {js ''openai'', js ''anthropic'', js ''google'', js ''azure''}" for c
    by (simp add: sample_params_def js_def)
  have e: "or_empty (deepseek_key (arg_cfg (sample_params (js ''mistral'') empty_cfg))) = []"
    by (simp add: sample_params_def empty_cfg_def or_empty_def)
  have d: "or_empty (deepseek_key (arg_cfg (sample_params (js ''mistral'') deepseek_cfg))) = js ''dk-1''"
    by (simp add: sample_params_def deepseek_cfg_def or_empty_def)
  have d': "js ''dk-1'' \<noteq> []" by (simp add: js_def)
  show ?thesis
    using unknown_provider_takes_deepseek_branch [OF p, of empty_cfg "sample_platform no_body"]
      unknown_provider_takes_deepseek_branch [OF p, of deepseek_cfg "sample_platform no_body"]
      e d d'
    by (simp add: sample_params_def empty_cfg_def deepseek_cfg_def or_empty_def or_default_def
        jsonHeader_def optProp_def js_def)
qed

subsection \<open>HTTP failures\<close>

lemma getProp_optProp:
  "getProp v k = Inl e \<Longrightarrow> optProp v k = JUndefined"
  "getProp v k = Inr x \<Longrightarrow> optProp v k = x"
  by (cases v; simp add: getProp_def optProp_def)+

lemma getProp_Inl: "getProp v k = Inl e \<Longrightarrow> \<not> truthy (optProp v k') "
  by (cases v) (simp_all add: getProp_def optProp_def)

lemma parsedErrorDetail_nested:
  assumes "JSON_parse pf t = Some d" "truthy (nestedMessage d)"
  shows "parsedErrorDetail pf t = toString (nestedMessage d)"
proof (cases "getProp d (js ''error'')")
  case (Inl e)
  then have "optProp d (js ''error'') = JUndefined" by (rule getProp_optProp)
  then have "nestedMessage d = JUndefined" by (simp add: nestedMessage_def optProp_def)
  with assms show ?thesis by simp
next
  case (Inr x)
  then have "optProp d (js ''error'') = x" by (rule getProp_optProp)
  with assms Inr show ?thesis by (simp add: parsedErrorDetail_def nestedMessage_def)
qed

lemma parsedErrorDetail_top:
  assumes "JSON_parse pf t = Some d" "\<not> truthy (nestedMessage d)" "truthy (topMessage d)"
  shows "parsedErrorDetail pf t = toString (topMessage d)"
proof (cases "getProp d (js ''error'')")
  case (Inl e)
  then have "\<not> truthy (optProp d (js ''message''))" by (rule getProp_Inl)
  with assms show ?thesis by (simp add: topMessage_def)
next
  case (Inr x)
  then have x: "optProp d (js ''error'') = x" by (rule getProp_optProp)
  show ?thesis
  proof (cases "getProp d (js ''message'')")
    case (Inl e)
    then have "\<not> truthy (optProp d (js ''message''))" by (rule getProp_Inl)
    with assms show ?thesis by (simp add: topMessage_def)
  next
    case (Inr m)
    then have "optProp d (js ''message'') = m" by (rule getProp_optProp)
    with assms Inr x \<open>getProp d (js ''error'') = Inr x\<close> show ?thesis
      by (simp add: parsedErrorDetail_def nestedMessage_def topMessage_def)
  qed
qed

lemma parsedErrorDetail_neither:
  assumes "JSON_parse pf t = Some d" "\<not> truthy (nestedMessage d)" "\<not> truthy (topMessage d)"
  shows "parsedErrorDetail pf t = Inr (truncate_str t 200) \<or> (\<exists>e. parsedErrorDetail pf t = Inl e)"
proof (cases "getProp d (js ''error'')")
  case (Inl e)
  with assms(1) show ?thesis by (simp add: parsedErrorDetail_def)
next
  case (Inr x)
  then have x: "optProp d (js ''error'') = x" by (rule getProp_optProp)
  show ?thesis
  proof (cases "getProp d (js ''message'')")
    case (Inl e)
    with assms Inr x show ?thesis by (simp add: parsedErrorDetail_def nestedMessage_def)
  next
    case m: (Inr m)
    then have "optProp d (js ''message'') = m" by (rule getProp_optProp)
    with assms Inr x m show ?thesis
      by (simp add: parsedErrorDetail_def nestedMessage_def topMessage_def)
  qed
qed

lemma parsedErrorDetail_unparsable:
  "JSON_parse pf t = None \<Longrightarrow> parsedErrorDetail pf t = Inl SyntaxError"
  by (simp add: parsedErrorDetail_def)

lemma errorMessage_detail:
  "errorMessage pf provider resp =
     provider @ js '' API error '' @ show_nat (resp_status resp) @ js '': '' @
     errorDetail pf (safeText resp)"
  by (simp add: errorMessage_def errorDetail_def Let_def split: sum.splits)

lemma errorDetail_throws:
  "(\<forall>d e. JSON_parse pf t = Some d \<and> truthy (nestedMessage d) \<and>
       toString (nestedMessage d) = Inl e \<longrightarrow>
       errorDetail pf t = (if length t > 200 then take 200 t @ [ellipsis] else t)) \<and>
   (\<forall>d e. JSON_parse pf t = Some d \<and> \<not> truthy (nestedMessage d) \<and> truthy (topMessage d) \<and>
       toString (topMessage d) = Inl e \<longrightarrow>
       errorDetail pf t = (if length t > 200 then take 200 t @ [ellipsis] else t))"
proof (intro conjI allI impI)
  have tr: "truncate_str t 200 = (if length t > 200 then take 200 t @ [ellipsis] else t)"
    by (simp add: truncate_str_def)
  {
    fix d e
    assume "JSON_parse pf t = Some d \<and> truthy (nestedMessage d) \<and>
       toString (nestedMessage d) = Inl e"
    then have "parsedErrorDetail pf t = Inl e"
      by (simp add: parsedErrorDetail_nested)
    then have "errorDetail pf t = truncate_str t 200"
      by (simp add: errorDetail_def)
    with tr show "errorDetail pf t = (if length t > 200 then take 200 t @ [ellipsis] else t)"
      by simp
  next
    fix d e
    assume "JSON_parse pf t = Some d \<and> \<not> truthy (nestedMessage d) \<and> truthy (topMessage d) \<and>
       toString (topMessage d) = Inl e"
    then have "parsedErrorDetail pf t = Inl e"
      by (simp add: parsedErrorDetail_top)
    then have "errorDetail pf t = truncate_str t 200"
      by (simp add: errorDetail_def)
    with tr show "errorDetail pf t = (if length t > 200 then take 200 t @ [ellipsis] else t)"
      by simp
  }
qed

lemma errorDetail_cases:
  "(\<forall>d m. JSON_parse pf t = Some d \<and> truthy (nestedMessage d) \<and>
       toString (nestedMessage d) = Inr m \<longrightarrow> errorDetail pf t = m) \<and>
   (\<forall>d m. JSON_parse pf t = Some d \<and> \<not> truthy (nestedMessage d) \<and> truthy (topMessage d) \<and>
       toString (topMessage d) = Inr m \<longrightarrow> errorDetail pf t = m) \<and>
   (JSON_parse pf t = None \<or>
    (\<exists>d. JSON_parse pf t = Some d \<and> \<not> truthy (nestedMessage d) \<and> \<not> truthy (topMessage d)) \<longrightarrow>
      errorDetail pf t = (if length t > 200 then take 200 t @ [ellipsis] else t))"
proof (intro conjI allI impI)
  fix d m
  assume "JSON_parse pf t = Some d \<and> truthy (nestedMessage d) \<and> toString (nestedMessage d) = Inr m"
  then show "errorDetail pf t = m"
    by (simp add: errorDetail_def parsedErrorDetail_nested)
next
  fix d m
  assume "JSON_parse pf t = Some d \<and> \<not> truthy (nestedMessage d) \<and> truthy (topMessage d) \<and>
       toString (topMessage d) = Inr m"
  then show "errorDetail pf t = m"
    by (simp add: errorDetail_def parsedErrorDetail_top)
next
  have tr: "truncate_str t 200 = (if length t > 200 then take 200 t @ [ellipsis] else t)"
    by (simp add: truncate_str_def)
  assume "JSON_parse pf t = None \<or>
    (\<exists>d. JSON_parse pf t = Some d \<and> \<not> truthy (nestedMessage d) \<and> \<not> truthy (topMessage d))"
  then have "parsedErrorDetail pf t = Inr (truncate_str t 200) \<or> (\<exists>e. parsedErrorDetail pf t = Inl e)"
    using parsedErrorDetail_neither [of pf t] parsedErrorDetail_unparsable [of pf t] by blast
  then have "errorDetail pf t = truncate_str t 200"
    by (auto simp: errorDetail_def)
  with tr show "errorDetail pf t = (if length t > 200 then take 200 t @ [ellipsis] else t)"
    by simp
qed

lemma callAI_http_failure:
  "callAI_request pf a = Inr req \<Longrightarrow> fetch pf req = Some resp \<Longrightarrow> \<not> resp_ok resp \<Longrightarrow>
   result (callAI pf a) = Inl (Error (errorMessage pf (arg_provider a) resp))"
  by (simp add: callAI_def)

lemma streamAI_http_failure:
  "streamAI_request pf a = Inr req \<Longrightarrow> fetch pf req = Some resp \<Longrightarrow> \<not> resp_ok resp \<Longrightarrow>
   result (streamAI pf a) = Inl (Error (errorMessage pf (arg_provider a) resp)) \<and>
   delivered (streamAI pf a) = []"
  by (simp add: streamAI_def)

lemma rate_limited_example:
  assumes "JSON_parse pf rate_limited_body =
      Some (JObj [(js ''error'', JObj [(js ''message'', JStr (js ''rate limited''))])])"
  shows "errorMessage pf (js ''openai'') rate_limited = js ''openai API error 429: rate limited''"
proof -
  let ?d = "JObj [(js ''error'', JObj [(js ''message'', JStr (js ''rate limited''))])]"
  have n: "nestedMessage ?d = JStr (js ''rate limited'')"
    by (simp add: nestedMessage_def optProp_def)
  have "truthy (nestedMessage ?d)" unfolding n by (simp add: js_def)
  then have "parsedErrorDetail pf rate_limited_body = toString (nestedMessage ?d)"
    using assms by (intro parsedErrorDetail_nested) simp_all
  then have "errorDetail pf rate_limited_body = js ''rate limited''"
    by (simp add: errorDetail_def n)
  then show ?thesis
    unfolding errorMessage_detail
    by (simp add: rate_limited_def safeText_def show_nat_429) (simp add: js_def)
qed

text \<open>
  C5 as stated fails where the raw body is used and is longer than 200 code units: the
  detail is then 201 code units long, the first 200 of the body and an ellipsis. It also
  fails where the nested message is present but cannot be converted to a string: the
  detail is then the raw body, although the field is there and truthy.
\<close>

theorem http_error_message_counterexample:
  "result (streamAI (sample_platform overlong_failure) (sample_params (js ''openai'') sample_cfg)) \<noteq>
     Inl (Error (js ''openai API error 500: '' @ take 200 overlong_body)) \<and>
   result (callAI (sample_platform overlong_failure) (sample_params (js ''openai'') sample_cfg)) \<noteq>
     Inl (Error (js ''openai API error 500: '' @ take 200 overlong_body)) \<and>
   result (streamAI (sample_platform overlong_failure) (sample_params (js ''openai'') sample_cfg)) =
     Inl (Error (js ''openai API error 500: '' @ take 200 overlong_body @ [ellipsis])) \<and>
   result (callAI (sample_platform overlong_failure) (sample_params (js ''openai'') sample_cfg)) =
     Inl (Error (js ''openai API error 500: '' @ take 200 overlong_body @ [ellipsis])) \<and>
   JSON_parse (sample_platform unconvertible_failure) unconvertible_body =
     Some (JObj [(js ''error'',
       JObj [(js ''message'', JObj [(js ''toString'', JNum (js ''1''))])])]) \<and>
   truthy (nestedMessage (JObj [(js ''error'',
       JObj [(js ''message'', JObj [(js ''toString'', JNum (js ''1''))])])])) \<and>
   result (streamAI (sample_platform unconvertible_failure)
       (sample_params (js ''openai'') sample_cfg)) =
     Inl (Error (js ''openai API error 400: '' @ unconvertible_body)) \<and>
   result (callAI (sample_platform unconvertible_failure)
       (sample_params (js ''openai'') sample_cfg)) =
     Inl (Error (js ''openai API error 400: '' @ unconvertible_body))"
  by code_simp

text \<open>
  C5, amended. On a response whose status is outside 200..299, \<open>callAI\<close> and
  \<open>streamAI\<close> throw an error whose message is the provider, \<open>API error\<close>, the status, a
  colon and a detail. The detail is the nested \<open>error.message\<close> of the parsed body when
  that is truthy (for a string: non-empty), else the top-level \<open>message\<close> when that is
  truthy, each converted to a string. When the body does not parse, or has neither, or the
  conversion of the message that was chosen throws, the detail is the raw body, and a body
  of more than 200 code units is cut to its first 200 followed by an ellipsis. A 429
  response with the body \<open>{"error":{"message":"rate limited"}}\<close>
  gives \<open>openai API error 429: rate limited\<close> for provider \<open>openai\<close>.
\<close>

theorem http_error_message:
  assumes "fetch pf req = Some resp" and "\<not> resp_ok resp"
  shows "(callAI_request pf a = Inr req \<longrightarrow>
       result (callAI pf a) = Inl (Error (errorMessage pf (arg_provider a) resp))) \<and>
     (streamAI_request pf a = Inr req \<longrightarrow>
       result (streamAI pf a) = Inl (Error (errorMessage pf (arg_provider a) resp))) \<and>
     errorMessage pf provider resp =
       provider @ js '' API error '' @ show_nat (resp_status resp) @ js '': '' @
       errorDetail pf (safeText resp) \<and>
     (\<forall>d m. JSON_parse pf (safeText resp) = Some d \<and> truthy (nestedMessage d) \<and>
        toString (nestedMessage d) = Inr m \<longrightarrow> errorDetail pf (safeText resp) = m) \<and>
     (\<forall>d m. JSON_parse pf (safeText resp) = Some d \<and> \<not> truthy (nestedMessage d) \<and>
        truthy (topMessage d) \<and> toString (topMessage d) = Inr m \<longrightarrow>
        errorDetail pf (safeText resp) = m) \<and>
     (\<forall>d e. JSON_parse pf (safeText resp) = Some d \<and> truthy (nestedMessage d) \<and>
        toString (nestedMessage d) = Inl e \<longrightarrow>
        errorDetail pf (safeText resp) =
          (if length (safeText resp) > 200 then take 200 (safeText resp) @ [ellipsis]
           else safeText resp)) \<and>
     (\<forall>d e. JSON_parse pf (safeText resp) = Some d \<and> \<not> truthy (nestedMessage d) \<and>
        truthy (topMessage d) \<and> toString (topMessage d) = Inl e \<longrightarrow>
        errorDetail pf (safeText resp) =
          (if length (safeText resp) > 200 then take 200 (safeText resp) @ [ellipsis]
           else safeText resp)) \<and>
     (JSON_parse pf (safeText resp) = None \<or>
      (\<exists>d. JSON_parse pf (safeText resp) = Some d \<and> \<not> truthy (nestedMessage d) \<and>
           \<not> truthy (topMessage d)) \<longrightarrow>
        errorDetail pf (safeText resp) =
          (if length (safeText resp) > 200 then take 200 (safeText resp) @ [ellipsis]
           else safeText resp)) \<and>
     (JSON_parse pf rate_limited_body =
        Some (JObj [(js ''error'', JObj [(js ''message'', JStr (js ''rate limited''))])]) \<longrightarrow>
      errorMessage pf (js ''openai'') rate_limited = js ''openai API error 429: rate limited'')"
  using callAI_http_failure [OF _ assms, of a] streamAI_http_failure [OF _ assms, of a]
    errorMessage_detail [of pf provider resp] errorDetail_cases [of pf "safeText resp"]
    errorDetail_throws [of pf "safeText resp"] rate_limited_example [of pf]
  by blast

theorem http_error_message_witness:
  "\<not> resp_ok rate_limited \<and> \<not> resp_ok bad_key \<and> \<not> resp_ok overlong_failure \<and>
   \<not> resp_ok unconvertible_failure \<and>
   toString (JObj [(js ''toString'', JNum (js ''1''))]) = Inl TypeError \<and>
   result (streamAI (sample_platform unconvertible_failure)
       (sample_params (js ''openai'') sample_cfg)) =
     Inl (Error (js ''openai API error 400: '' @ unconvertible_body)) \<and>
   result (callAI (sample_platform rate_limited) (sample_params (js ''openai'') sample_cfg)) =
     Inl (Error (js ''openai API error 429: rate limited'')) \<and>
   result (streamAI (sample_platform rate_limited) (sample_params (js ''openai'') sample_cfg)) =
     Inl (Error (js ''openai API error 429: rate limited'')) \<and>
   result (streamAI (sample_platform bad_key) (sample_params (js ''openai'') sample_cfg)) =
     Inl (Error (js ''openai API error 401: bad key'')) \<and>
   result (streamAI (sample_platform overlong_failure) (sample_params (js ''openai'') sample_cfg)) =
     Inl (Error (js ''openai API error 500: '' @ replicate 200 0x78 @ [ellipsis]))"
proof -
  let ?a = "sample_params (js ''openai'') sample_cfg"
  define creq where "creq = projr (callAI_request (sample_platform rate_limited) ?a)"
  define sreq where "sreq = projr (streamAI_request (sample_platform rate_limited) ?a)"
  have c: "callAI_request (sample_platform r) ?a = Inr creq" for r
    unfolding creq_def
    by (simp add: callAI_request_def sample_params_def sample_cfg_def or_empty_def Let_def js_def)
  have s: "streamAI_request (sample_platform r) ?a = Inr sreq" for r
    unfolding sreq_def
    by (simp add: streamAI_request_def sample_params_def sample_cfg_def or_empty_def Let_def js_def)
  have f: "fetch (sample_platform r) q = Some r" for r q
    by (simp add: sample_platform_def)
  have n: "\<not> resp_ok rate_limited" "\<not> resp_ok bad_key" "\<not> resp_ok overlong_failure"
    "\<not> resp_ok unconvertible_failure"
    by (simp_all add: resp_ok_def rate_limited_def bad_key_def overlong_failure_def
        unconvertible_failure_def)
  have p: "arg_provider ?a = js ''openai''" by (simp add: sample_params_def)
  have m1: "errorMessage (sample_platform rate_limited) (js ''openai'') rate_limited =
      js ''openai API error 429: rate limited''"
    by code_simp
  have m2: "errorMessage (sample_platform bad_key) (js ''openai'') bad_key =
      js ''openai API error 401: bad key''"
    by code_simp
  have m3: "errorMessage (sample_platform overlong_failure) (js ''openai'') overlong_failure =
      js ''openai API error 500: '' @ replicate 200 0x78 @ [ellipsis]"
    by code_simp
  have m4: "errorMessage (sample_platform unconvertible_failure) (js ''openai'')
      unconvertible_failure = js ''openai API error 400: '' @ unconvertible_body"
    by code_simp
  have t4: "toString (JObj [(js ''toString'', JNum (js ''1''))]) = Inl TypeError"
    by code_simp
  show ?thesis
    using http_error_message [of "sample_platform rate_limited" creq rate_limited ?a
        "js ''openai''", OF f n(1)]
      http_error_message [of "sample_platform rate_limited" sreq rate_limited ?a
        "js ''openai''", OF f n(1)]
      http_error_message [of "sample_platform bad_key" sreq bad_key ?a
        "js ''openai''", OF f n(2)]
      http_error_message [of "sample_platform overlong_failure" sreq overlong_failure ?a
        "js ''openai''", OF f n(3)]
      http_error_message [of "sample_platform unconvertible_failure" sreq
        unconvertible_failure ?a "js ''openai''", OF f n(4)]
      c s n p m1 m2 m3 m4 t4
    by simp
qed

subsection \<open>Gemini text extraction\<close>

lemma googleStreamText_texts:
  "googleStreamText v =
     (case googleTexts v of Inl e \<Rightarrow> Inl e | Inr ts \<Rightarrow> joinValues [] ts)"
  by (simp add: googleStreamText_def googleTexts_def Let_def split: sum.splits)

lemma googleCallText_texts:
  "googleCallText v =
     (case googleTexts v of Inl e \<Rightarrow> Inl e | Inr ts \<Rightarrow> joinValues [LF] ts)"
  by (simp add: googleCallText_def googleTexts_def Let_def split: sum.splits)

lemma joinStrings_short: "length ss \<le> 1 \<Longrightarrow> joinStrings sep ss = joinStrings sep' ss"
  by (cases ss) simp_all

lemma elementStrings_length:
  "elementStrings xs = Inr ss \<Longrightarrow> length ss = length xs"
  by (induction xs arbitrary: ss) (auto split: sum.splits if_splits)

lemma joinValues_short:
  "length ts \<le> 1 \<Longrightarrow> joinValues sep ts = joinValues sep' ts"
  by (auto simp: joinValues_def elementStrings_length intro: joinStrings_short split: sum.splits)

lemma joinValues_throws:
  "joinValues sep ts = Inl e \<longleftrightarrow> joinValues sep' ts = Inl e"
  by (simp add: joinValues_def split: sum.splits)

text \<open>
  C3 as stated fails: on an event or body with two text parts the streaming extraction
  gives \<open>Hello\<close> and the non-streaming one \<open>Hel\<close>, a line feed, \<open>lo\<close>.
\<close>

theorem google_extraction_counterexample:
  "googleStreamText two_parts = Inr (js ''Hello'') \<and>
   googleCallText two_parts = Inr (js ''Hel'' @ [LF] @ js ''lo'') \<and>
   googleStreamText two_parts \<noteq> googleCallText two_parts"
  by code_simp

text \<open>
  C3, amended. For provider \<open>google\<close> the streaming and the non-streaming extraction
  select the same texts and throw on the same inputs; the streaming one joins the texts
  with the empty string, the non-streaming one with a line feed. They agree whenever at
  most one part has a truthy text.
\<close>

theorem google_extraction:
  "googleStreamText v = (case googleTexts v of Inl e \<Rightarrow> Inl e | Inr ts \<Rightarrow> joinValues [] ts) \<and>
   googleCallText v = (case googleTexts v of Inl e \<Rightarrow> Inl e | Inr ts \<Rightarrow> joinValues [LF] ts) \<and>
   (googleStreamText v = Inl e \<longleftrightarrow> googleCallText v = Inl e) \<and>
   (\<forall>ts. googleTexts v = Inr ts \<and> length ts \<le> 1 \<longrightarrow> googleStreamText v = googleCallText v)"
proof -
  have "googleStreamText v = Inl e \<longleftrightarrow> googleCallText v = Inl e"
    unfolding googleStreamText_texts googleCallText_texts
    using joinValues_throws [of "[]" _ e "[LF]"] by (auto split: sum.splits)
  moreover have "googleStreamText v = googleCallText v"
    if "googleTexts v = Inr ts" "length ts \<le> 1" for ts
    unfolding googleStreamText_texts googleCallText_texts
    using that joinValues_short [of ts "[]" "[LF]"] by simp
  ultimately show ?thesis
    using googleStreamText_texts [of v] googleCallText_texts [of v] by blast
qed

theorem google_extraction_witness:
  "googleTexts one_part = Inr [JStr (js ''Hello'')] \<and>
   length [JStr (js ''Hello'')] \<le> 1 \<and>
   googleStreamText one_part = Inr (js ''Hello'') \<and>
   googleCallText one_part = Inr (js ''Hello'')"
proof -
  have t: "googleTexts one_part = Inr [JStr (js ''Hello'')]" by code_simp
  have s: "googleStreamText one_part = Inr (js ''Hello'')" by code_simp
  have c: "googleCallText one_part = Inr (js ''Hello'')" by code_simp
  show ?thesis
    using google_extraction [of one_part TypeError] t s c by (simp add: joinValues_def)
qed

subsection \<open>The line loop\<close>












subsection \<open>The returned text and the deltas\<close>

lemma emit_Some:
  "emit t = Inr (Some (v, s)) \<Longrightarrow> v = t \<and> truthy t \<and> toString t = Inr s"
  by (auto simp: emit_def split: if_splits sum.splits)

lemma tryEvent_Some:
  assumes "tryEvent pf provider d = Inr (Some (v, s))"
  shows "truthy v \<and> toString v = Inr s \<and> (provider = js ''google'' \<longrightarrow> (\<exists>t. v = JStr t))"
proof -
  obtain evt where evt: "JSON_parse pf d = Some evt"
    using assms by (cases "JSON_parse pf d") (simp_all add: tryEvent_def)
  show ?thesis
  proof (cases "provider = js ''google''")
    case True
    have ne: "js ''google'' \<noteq> js ''anthropic''" by (simp add: js_def)
    obtain t where "googleStreamText evt = Inr t" "emit (JStr t) = Inr (Some (v, s))"
      using assms evt True ne by (cases "googleStreamText evt") (simp_all add: tryEvent_def)
    then show ?thesis using emit_Some [of "JStr t" v s] by auto
  next
    case False
    then have "emit (anthropicDelta evt) = Inr (Some (v, s)) \<or>
        emit (openaiDelta evt) = Inr (Some (v, s))"
      using assms evt by (simp add: tryEvent_def split: if_splits)
    then show ?thesis using False emit_Some by blast
  qed
qed

lemma processLine_accumulates:
  assumes "accumulates provider st"
  shows "accumulates provider (processLine pf provider True st line)"
proof (cases "processLine pf provider True st line = st")
  case True
  with assms show ?thesis by simp
next
  case False
  then obtain v s where t: "tryEvent pf provider (trim (drop 5 (trim line))) = Inr (Some (v, s))"
    and p: "processLine pf provider True st line =
       st\<lparr> full := full st @ s, deltas := deltas st @ [v] \<rparr>"
    by (auto simp: processLine_def Let_def split: if_splits sum.splits option.splits)
  have "truthy v \<and> toString v = Inr s \<and> (provider = js ''google'' \<longrightarrow> (\<exists>t. v = JStr t))"
    using t by (rule tryEvent_Some)
  then show ?thesis using assms unfolding p
    by (auto simp: accumulates_def stringOf_def)
qed

lemma processLines_accumulates:
  "accumulates provider st \<Longrightarrow>
   accumulates provider (foldl (processLine pf provider True) st ls)"
  by (induction ls arbitrary: st) (simp_all add: processLine_accumulates)

lemma processChunk_accumulates:
  assumes "accumulates provider st"
  shows "accumulates provider (processChunk pf provider True st chunk)"
proof -
  have "accumulates provider (st\<lparr> buffer := b \<rparr>)" for b
    using assms by (simp add: accumulates_def)
  then show ?thesis
    by (simp add: processChunk_def Let_def processLines_accumulates)
qed

lemma readLoop_accumulates:
  "accumulates provider st \<Longrightarrow>
   accumulates provider (fst (readLoop pf provider True st rs))"
proof (induction rs arbitrary: st)
  case Nil
  then show ?case by simp
next
  case (Cons r rs)
  then show ?case by (cases r) (simp_all add: processChunk_accumulates)
qed

lemma streamAI_unfold:
  assumes "result (streamAI pf a) = Inr s"
  obtains req resp where "streamAI_request pf a = Inr req" "fetch pf req = Some resp"
    "resp_ok resp"
proof -
  from assms obtain req where r: "streamAI_request pf a = Inr req"
    by (cases "streamAI_request pf a") (simp_all add: streamAI_def)
  with assms obtain resp where f: "fetch pf req = Some resp"
    by (cases "fetch pf req") (simp_all add: streamAI_def)
  with assms r have "resp_ok resp"
    by (cases "resp_ok resp") (simp_all add: streamAI_def)
  with r f that show thesis by blast
qed

lemma streamAI_no_reader:
  assumes "streamAI_request pf a = Inr req" "fetch pf req = Some resp" "resp_ok resp"
    "resp_reader resp = None" "arg_onDelta a"
  shows "delivered (streamAI pf a) = [JStr (safeText resp)] \<and>
         result (streamAI pf a) = Inr (safeText resp)"
  using assms by (simp add: streamAI_def)

lemma streamAI_reader:
  assumes "streamAI_request pf a = Inr req" "fetch pf req = Some resp" "resp_ok resp"
    "resp_reader resp = Some rs" "arg_onDelta a" "result (streamAI pf a) = Inr s"
  shows "\<exists>st. accumulates (arg_provider a) st \<and> delivered (streamAI pf a) = deltas st \<and>
           s = full st"
proof -
  let ?r = "readLoop pf (arg_provider a) True \<lparr> buffer = [], full = [], deltas = [] \<rparr> rs"
  have acc: "accumulates (arg_provider a) (fst ?r)"
    by (rule readLoop_accumulates) (simp add: accumulates_def)
  obtain st e where r: "?r = (st, e)" by (cases ?r)
  with assms have "e = None"
    by (cases e) (simp_all add: streamAI_def)
  with r assms have "delivered (streamAI pf a) = deltas st \<and> s = full st"
    by (auto simp: streamAI_def)
  with acc r show ?thesis by auto
qed

text \<open>
  C1 as stated fails. A successful response without a body (here a 204) takes the branch
  without a reader, which passes the whole body text to \<open>onDelta\<close> even when it is
  empty. In the read loop the test is truthiness, so a delta whose content is an empty
  array is passed on as well, and its string is empty.
\<close>

theorem streamAI_fragments_counterexample:
  "arg_onDelta (sample_params (js ''openai'') sample_cfg) \<and>
   result (streamAI (sample_platform no_body) (sample_params (js ''openai'') sample_cfg)) = Inr [] \<and>
   delivered (streamAI (sample_platform no_body) (sample_params (js ''openai'') sample_cfg)) =
     [JStr []] \<and>
   delivered (streamAI (sample_platform array_delta_stream)
       (sample_params (js ''openai'') sample_cfg)) = [JArr []] \<and>
   stringOf (JArr []) = []"
  by code_simp

text \<open>
  C1, amended. When a callback is supplied and \<open>streamAI\<close> returns, the returned string
  is the concatenation, in the order of the calls, of the strings of exactly the values
  passed to \<open>onDelta\<close>, none of whose conversions throws. When the response has a body
  reader, every value passed is truthy, so every string fragment is non-empty, and for
  provider \<open>google\<close> every value passed is a string. When the response has no body
  reader, the body text is passed once, as it is, and returned.
\<close>

theorem streamAI_returns_concatenation:
  assumes "arg_onDelta a" and "result (streamAI pf a) = Inr s"
  shows "concat (map stringOf (delivered (streamAI pf a))) = s \<and>
     (\<forall>v \<in> set (delivered (streamAI pf a)). \<exists>t. toString v = Inr t) \<and>
     (\<forall>req resp. streamAI_request pf a = Inr req \<and> fetch pf req = Some resp \<and>
        resp_reader resp \<noteq> None \<longrightarrow>
        (\<forall>v \<in> set (delivered (streamAI pf a)).
           truthy v \<and> (\<forall>t. v = JStr t \<longrightarrow> t \<noteq> []) \<and>
           (arg_provider a = js ''google'' \<longrightarrow> (\<exists>t. v = JStr t)))) \<and>
     (\<forall>req resp. streamAI_request pf a = Inr req \<and> fetch pf req = Some resp \<and>
        resp_reader resp = None \<longrightarrow>
        delivered (streamAI pf a) = [JStr s] \<and> s = safeText resp)"
proof -
  obtain req resp where r: "streamAI_request pf a = Inr req" "fetch pf req = Some resp"
    "resp_ok resp"
    using assms(2) by (rule streamAI_unfold)
  show ?thesis
  proof (cases "resp_reader resp")
    case None
    then have "delivered (streamAI pf a) = [JStr (safeText resp)]"
      "result (streamAI pf a) = Inr (safeText resp)"
      using streamAI_no_reader [OF r None assms(1)] by simp_all
    with assms(2) r None show ?thesis by (auto simp: stringOf_def)
  next
    case (Some rs)
    then obtain st where st: "accumulates (arg_provider a) st"
      "delivered (streamAI pf a) = deltas st" "s = full st"
      using streamAI_reader [OF r Some assms] by blast
    have "\<forall>v \<in> set (deltas st). truthy v \<and> (\<forall>t. v = JStr t \<longrightarrow> t \<noteq> [])"
      using st(1) by (auto simp: accumulates_def)
    with st r Some show ?thesis by (auto simp: accumulates_def)
  qed
qed

theorem streamAI_returns_concatenation_witness:
  "arg_onDelta (sample_params (js ''openai'') sample_cfg) \<and>
   arg_onDelta (sample_params (js ''google'') google_cfg) \<and>
   result (streamAI (sample_platform sse_stream) (sample_params (js ''openai'') sample_cfg)) =
     Inr (js ''Hello'') \<and>
   delivered (streamAI (sample_platform sse_stream) (sample_params (js ''openai'') sample_cfg)) =
     [JStr (js ''Hel''), JStr (js ''lo'')] \<and>
   concat (map stringOf [JStr (js ''Hel''), JStr (js ''lo'')]) = js ''Hello'' \<and>
   result (streamAI (sample_platform gemini_stream) (sample_params (js ''google'') google_cfg)) =
     Inr (js ''Hello'') \<and>
   delivered (streamAI (sample_platform gemini_stream) (sample_params (js ''google'') google_cfg)) =
     [JStr (js ''Hello'')] \<and>
   map url (fetched (streamAI (sample_platform gemini_stream)
       (sample_params (js ''google'') google_cfg))) =
     [js ''https://generativelanguage.googleapis.com/v1beta/models/gemini-1.5-flash:streamGenerateContent?key=gk-1&alt=sse''] \<and>
   result (streamAI (sample_platform no_body) (sample_params (js ''openai'') sample_cfg)) = Inr [] \<and>
   delivered (streamAI (sample_platform no_body) (sample_params (js ''openai'') sample_cfg)) =
     [JStr []]"
proof -
  let ?a = "sample_params (js ''openai'') sample_cfg"
  let ?g = "sample_params (js ''google'') google_cfg"
  define oreq where "oreq = projr (streamAI_request (sample_platform sse_stream) ?a)"
  define greq where "greq = projr (streamAI_request (sample_platform gemini_stream) ?g)"
  have cb: "arg_onDelta ?a" "arg_onDelta ?g" by (simp_all add: sample_params_def)
  have pg: "arg_provider ?g = js ''google''" by (simp add: sample_params_def)
  have ro: "streamAI_request (sample_platform r) ?a = Inr oreq" for r
    unfolding oreq_def
    by (simp add: streamAI_request_def sample_params_def sample_cfg_def or_empty_def Let_def js_def)
  have "\<not> isl (streamAI_request (sample_platform gemini_stream) ?g)" by code_simp
  then have rg: "streamAI_request (sample_platform gemini_stream) ?g = Inr greq"
    unfolding greq_def by simp
  have f: "fetch (sample_platform r) q = Some r" for r q
    by (simp add: sample_platform_def)
  have rd: "resp_reader sse_stream \<noteq> None" "resp_reader gemini_stream \<noteq> None"
    "resp_reader no_body = None"
    by (simp_all add: sse_stream_def gemini_stream_def no_body_def)
  have e1: "result (streamAI (sample_platform sse_stream) ?a) = Inr (js ''Hello'')" by code_simp
  have e2: "result (streamAI (sample_platform gemini_stream) ?g) = Inr (js ''Hello'')"
    by code_simp
  have e3: "result (streamAI (sample_platform no_body) ?a) = Inr []" by code_simp
  have d1: "delivered (streamAI (sample_platform sse_stream) ?a) =
      [JStr (js ''Hel''), JStr (js ''lo'')]" by code_simp
  have d2: "delivered (streamAI (sample_platform gemini_stream) ?g) = [JStr (js ''Hello'')]"
    by code_simp
  have u: "map url (fetched (streamAI (sample_platform gemini_stream) ?g)) =
     [js ''https://generativelanguage.googleapis.com/v1beta/models/gemini-1.5-flash:streamGenerateContent?key=gk-1&alt=sse'']"
    by code_simp
  show ?thesis
    using streamAI_returns_concatenation [OF cb(1) e1] streamAI_returns_concatenation [OF cb(2) e2]
      streamAI_returns_concatenation [OF cb(1) e3] cb pg ro rg f rd e1 e2 e3 d1 d2 u
    by simp
qed

section \<open>Properties of the response history\<close>


lemma dropCurrentPort_history:
  "responseHistory (fst (dropCurrentPort s)) = responseHistory s \<and>
   historyIndex (fst (dropCurrentPort s)) = historyIndex s"
  by (simp add: dropCurrentPort_def split: option.splits)


lemma send_history:
  "responseHistory (fst (send now kind d c s)) = responseHistory s \<and>
   historyIndex (fst (send now kind d c s)) = historyIndex s"
  by (simp add: send_def Let_def)

lemma cancelStream_history:
  "responseHistory (fst (cancelStream s)) = responseHistory s \<and>
   historyIndex (fst (cancelStream s)) = historyIndex s"
  by (simp add: cancelStream_def case_prod_beta dropCurrentPort_history)

lemma navigateHistory_entries:
  "responseHistory (navigateHistory direction s) = responseHistory s"
  by (simp add: navigateHistory_def)










lemma onMessage_Delta_frame:
  "responseHistory (fst (onMessage p (Delta t) s)) = responseHistory s \<and>
   historyIndex (fst (onMessage p (Delta t) s)) = historyIndex s \<and>
   currentPort (fst (onMessage p (Delta t) s)) = currentPort s"
  by (simp add: onMessage_def split: option.splits)

lemma onMessage_Failed_frame:
  "responseHistory (fst (onMessage p (Failed e) s)) = responseHistory s \<and>
   historyIndex (fst (onMessage p (Failed e) s)) = historyIndex s"
  by (simp add: onMessage_def Let_def case_prod_beta dropCurrentPort_history split: option.splits)

lemma onMessage_Other_frame:
  "fst (onMessage p Other s) = s"
  by (simp add: onMessage_def split: option.splits)

lemma map_of_filter_key: "map_of (filter (\<lambda>e. fst e \<noteq> q) xs) q = None"
  by (induction xs) auto

lemma dropCurrentPort_closed:
  "currentPort s = Some p \<Longrightarrow> map_of (ports (fst (dropCurrentPort s))) p = None"
  by (simp add: dropCurrentPort_def map_of_filter_key)

lemma cancelStream_closed:
  "currentPort s = Some p \<Longrightarrow> map_of (ports (fst (cancelStream s))) p = None"
  using dropCurrentPort_closed [of s p] by (simp add: cancelStream_def case_prod_beta)

lemma onMessage_Failed_closed:
  "currentPort s = Some p \<Longrightarrow> map_of (ports (fst (onMessage p (Failed e) s))) p = None"
  using dropCurrentPort_closed [of "s\<lparr>isStreaming := False\<rparr>" p]
  by (simp add: onMessage_def Let_def case_prod_beta split: option.splits)

lemma onMessage_closed: "map_of (ports s) p = None \<Longrightarrow> onMessage p m s = (s, [])"
  by (simp add: onMessage_def)

lemma run_closed:
  "map_of (ports s) p = None \<Longrightarrow> run s (map (Message p) ms) = s"
  unfolding run_def by (induction ms) (simp_all add: onMessage_closed)

lemma run_append: "run s (xs @ ys) = run (run s xs) ys"
  by (simp add: run_def)

lemma run_deltas:
  "responseHistory (run s (map (\<lambda>t. Message p (Delta t)) ds)) = responseHistory s \<and>
   historyIndex (run s (map (\<lambda>t. Message p (Delta t)) ds)) = historyIndex s \<and>
   currentPort (run s (map (\<lambda>t. Message p (Delta t)) ds)) = currentPort s"
  unfolding run_def by (induction ds arbitrary: s) (simp_all add: onMessage_Delta_frame)

lemma cancelled_session:
  assumes "currentPort s = Some p"
  shows "responseHistory (run s (map (\<lambda>t. Message p (Delta t)) ds @ [CancelStream] @
            map (Message p) later)) = responseHistory s \<and>
         historyIndex (run s (map (\<lambda>t. Message p (Delta t)) ds @ [CancelStream] @
            map (Message p) later)) = historyIndex s"
proof -
  let ?a = "run s (map (\<lambda>t. Message p (Delta t)) ds)"
  let ?b = "fst (cancelStream ?a)"
  have a: "responseHistory ?a = responseHistory s" "historyIndex ?a = historyIndex s"
    "currentPort ?a = Some p"
    using assms run_deltas [of s p ds] by simp_all
  have "map_of (ports ?b) p = None" using a(3) by (rule cancelStream_closed)
  then have "run ?b (map (Message p) later) = ?b" by (rule run_closed)
  moreover have "run ?a (CancelStream # map (Message p) later) = run ?b (map (Message p) later)"
    by (simp add: run_def)
  ultimately have "run s (map (\<lambda>t. Message p (Delta t)) ds @ [CancelStream] @
            map (Message p) later) = ?b"
    by (simp add: run_append)
  then show ?thesis using a cancelStream_history [of ?a] by simp
qed

lemma failed_session:
  assumes "currentPort s = Some p"
  shows "responseHistory (run s (map (\<lambda>t. Message p (Delta t)) ds @ [Message p (Failed e)] @
            map (Message p) later)) = responseHistory s \<and>
         historyIndex (run s (map (\<lambda>t. Message p (Delta t)) ds @ [Message p (Failed e)] @
            map (Message p) later)) = historyIndex s"
proof -
  let ?a = "run s (map (\<lambda>t. Message p (Delta t)) ds)"
  let ?b = "fst (onMessage p (Failed e) ?a)"
  have a: "responseHistory ?a = responseHistory s" "historyIndex ?a = historyIndex s"
    "currentPort ?a = Some p"
    using assms run_deltas [of s p ds] by simp_all
  have "map_of (ports ?b) p = None" using a(3) by (rule onMessage_Failed_closed)
  then have "run ?b (map (Message p) later) = ?b" by (rule run_closed)
  moreover have "run ?a (Message p (Failed e) # map (Message p) later) =
      run ?b (map (Message p) later)"
    by (simp add: run_def)
  ultimately have "run s (map (\<lambda>t. Message p (Delta t)) ds @ [Message p (Failed e)] @
            map (Message p) later) = ?b"
    by (simp add: run_append)
  then show ?thesis using a onMessage_Failed_frame [of p e ?a] by simp
qed

lemma step_entries:
  assumes "responseHistory (step s ev) \<noteq> responseHistory s"
  shows "\<exists>q t. ev = Message q (Done t)"
proof (cases ev)
  case (Message q m)
  then show ?thesis using assms
    by (cases m) (simp_all add: onMessage_Delta_frame onMessage_Failed_frame onMessage_Other_frame)
qed (use assms in \<open>simp_all add: send_history cancelStream_history navigateHistory_entries\<close>)

text \<open>
  C7. The error branch of the port listener and \<open>cancelStream\<close> leave the history
  entries and the cursor as they were. So does a whole session on the current port that
  receives any deltas and then an error message or a cancel, whatever is posted on
  that port afterwards: the port is disconnected and its listener no longer runs. The only
  event that changes the entries is a \<open>done\<close> message.
\<close>

theorem history_unchanged_on_error_or_cancel:
  "responseHistory (fst (onMessage p (Failed e) s)) = responseHistory s \<and>
   historyIndex (fst (onMessage p (Failed e) s)) = historyIndex s \<and>
   responseHistory (fst (cancelStream s)) = responseHistory s \<and>
   historyIndex (fst (cancelStream s)) = historyIndex s \<and>
   (currentPort s = Some p \<longrightarrow>
      responseHistory (run s (map (\<lambda>t. Message p (Delta t)) ds @ [CancelStream] @
         map (Message p) later)) = responseHistory s \<and>
      historyIndex (run s (map (\<lambda>t. Message p (Delta t)) ds @ [CancelStream] @
         map (Message p) later)) = historyIndex s \<and>
      responseHistory (run s (map (\<lambda>t. Message p (Delta t)) ds @ [Message p (Failed e)] @
         map (Message p) later)) = responseHistory s \<and>
      historyIndex (run s (map (\<lambda>t. Message p (Delta t)) ds @ [Message p (Failed e)] @
         map (Message p) later)) = historyIndex s) \<and>
   (responseHistory (step s ev) \<noteq> responseHistory s \<longrightarrow> (\<exists>q t. ev = Message q (Done t)))"
  using onMessage_Failed_frame [of p e s] cancelStream_history [of s]
    cancelled_session [of s p ds later] failed_session [of s p ds e later] step_entries [of s ev]
  by blast

theorem history_unchanged_on_error_or_cancel_witness:
  "currentPort streaming_panel = Some 1 \<and>
   responseHistory streaming_panel = [js ''First reply''] \<and>
   historyIndex streaming_panel = 0 \<and>
   responseHistory (run streaming_panel
      (map (\<lambda>t. Message 1 (Delta t)) [Some (js ''Dear ''), Some (js ''Sir'')] @ [CancelStream] @
       map (Message 1) [Delta (Some (js '','')), Done (Some (js ''Dear Sir,''))])) = [js ''First reply''] \<and>
   historyIndex (run streaming_panel
      (map (\<lambda>t. Message 1 (Delta t)) [Some (js ''Dear ''), Some (js ''Sir'')] @ [CancelStream] @
       map (Message 1) [Delta (Some (js '','')), Done (Some (js ''Dear Sir,''))])) = 0 \<and>
   responseHistory (run streaming_panel
      (map (\<lambda>t. Message 1 (Delta t)) [Some (js ''Dear ''), Some (js ''Sir'')] @
       [Message 1 (Failed (js ''openai API error 429: rate limited''))] @
       map (Message 1) [Delta (Some (js '','')), Done (Some (js ''Dear Sir,''))])) = [js ''First reply''] \<and>
   responseHistory (step streaming_panel (Message 1 (Done (Some (js ''Dear Sir,''))))) \<noteq>
     responseHistory streaming_panel"
  using history_unchanged_on_error_or_cancel [of 1 "js ''openai API error 429: rate limited''"
      streaming_panel "[Some (js ''Dear ''), Some (js ''Sir'')]"
      "[Delta (Some (js '','')), Done (Some (js ''Dear Sir,''))]"
      "Message 1 (Done (Some (js ''Dear Sir,'')))"]
  by (simp add: sample_simps)

section \<open>Properties of the rate limit\<close>

lemma send_too_soon:
  "now - lastRequestTime s < RATE_LIMIT_MS \<Longrightarrow> send now kind d c s = (s, [rateLimitToast])"
  by (simp add: send_def)

lemma send_stamps:
  "RATE_LIMIT_MS \<le> now - lastRequestTime s \<Longrightarrow>
   lastRequestTime (fst (send now kind d c s)) = now"
  by (simp add: send_def Let_def)

text \<open>
  C8 as stated fails: a call that is itself rate-limited does not restart the window. A
  request sent at time T has completed; a call at T + 600 is rejected by the rate limit; a
  call at T + 1000 comes 400 ms after that call, and it is accepted: it opens a port.
\<close>

theorem send_rate_limit_counterexample:
  "snd (send 1700000000600 (js ''revise'') sample_dom sample_cfg completed_panel) =
     [rateLimitToast] \<and>
   1700000001000 - 1700000000600 < RATE_LIMIT_MS \<and>
   rateLimitToast \<notin> set (snd (send 1700000001000 (js ''revise'') sample_dom sample_cfg
       (fst (send 1700000000600 (js ''revise'') sample_dom sample_cfg completed_panel)))) \<and>
   Connect 1 \<in> set (snd (send 1700000001000 (js ''revise'') sample_dom sample_cfg
       (fst (send 1700000000600 (js ''revise'') sample_dom sample_cfg completed_panel))))"
  by (simp add: sample_simps completed_panel_def rateLimitToast_def)

text \<open>
  C8, amended. A \<open>send\<close> less than 1000 ms after the stored time of the last call that
  passed the rate-limit check only shows the rate-limit toast: the state is unchanged and
  nothing else happens. In particular, when the first of two calls passes the check and
  the second comes less than 1000 ms later, the second is rejected in this way.
\<close>

theorem send_rate_limit:
  "(now - lastRequestTime s < RATE_LIMIT_MS \<longrightarrow> send now kind d c s = (s, [rateLimitToast])) \<and>
   (RATE_LIMIT_MS \<le> t1 - lastRequestTime s \<and> t2 - t1 < RATE_LIMIT_MS \<longrightarrow>
      send t2 kind' d' c' (fst (send t1 kind d c s)) = (fst (send t1 kind d c s), [rateLimitToast]))"
  using send_too_soon [of now s kind d c] send_stamps [of t1 s kind d c]
    send_too_soon [of t2 "fst (send t1 kind d c s)" kind' d' c']
  by simp

theorem send_rate_limit_witness:
  "1700000005600 - lastRequestTime streaming_panel < RATE_LIMIT_MS \<and>
   send 1700000005600 (js ''revise'') sample_dom sample_cfg streaming_panel =
     (streaming_panel, [rateLimitToast]) \<and>
   RATE_LIMIT_MS \<le> 1700000000000 - lastRequestTime initial \<and>
   1700000000999 - 1700000000000 < RATE_LIMIT_MS \<and>
   send 1700000000999 (js ''formal'') sample_dom sample_cfg
     (fst (send 1700000000000 (js ''revise'') sample_dom sample_cfg initial)) =
   (fst (send 1700000000000 (js ''revise'') sample_dom sample_cfg initial), [rateLimitToast])"
  using send_rate_limit [of 1700000005600 streaming_panel "js ''revise''" sample_dom sample_cfg
     1700000000000 1700000000999 "js ''formal''" sample_dom sample_cfg]
   send_rate_limit [of 1700000005600 initial "js ''revise''" sample_dom sample_cfg
     1700000000000 1700000000999 "js ''formal''" sample_dom sample_cfg]
  by (simp add: sample_simps)

text \<open>
  C9. A \<open>send\<close> that passes the rate-limit check and is then rejected, for empty input
  or for a provider that is not configured, has stored its call time and changed nothing
  else; a \<open>send\<close> less than 1000 ms after it is rejected by the rate limit.
\<close>

theorem rejected_send_consumes_window:
  assumes "RATE_LIMIT_MS \<le> t1 - lastRequestTime s"
    and "trim (inputValue d) = [] \<or> \<not> validateProvider (providerValue d) c"
    and "t2 - t1 < RATE_LIMIT_MS"
  shows "fst (send t1 kind d c s) = s\<lparr> lastRequestTime := t1 \<rparr> \<and>
     snd (send t1 kind d c s) =
       (if trim (inputValue d) = []
        then [Toast (js ''Please enter some text first'') (js ''warning''), FocusInput]
        else [StorageGet, Toast (getValidationError (providerValue d)) (js ''error''),
              OpenSettings]) \<and>
     send t2 kind' d' c' (fst (send t1 kind d c s)) = (fst (send t1 kind d c s), [rateLimitToast])"
proof -
  have a: "fst (send t1 kind d c s) = s\<lparr> lastRequestTime := t1 \<rparr>"
    using assms(1,2) by (auto simp: send_def Let_def)
  have b: "snd (send t1 kind d c s) =
       (if trim (inputValue d) = []
        then [Toast (js ''Please enter some text first'') (js ''warning''), FocusInput]
        else [StorageGet, Toast (getValidationError (providerValue d)) (js ''error''),
              OpenSettings])"
    using assms(1,2) by (auto simp: send_def Let_def)
  have "t2 - lastRequestTime (fst (send t1 kind d c s)) < RATE_LIMIT_MS"
    using a assms(3) by simp
  then have "send t2 kind' d' c' (fst (send t1 kind d c s)) =
      (fst (send t1 kind d c s), [rateLimitToast])"
    by (rule send_too_soon)
  with a b show ?thesis by simp
qed

theorem rejected_send_consumes_window_witness:
  "RATE_LIMIT_MS \<le> 1700000000000 - lastRequestTime initial \<and>
   \<not> validateProvider (providerValue sample_dom) unconfigured_cfg \<and>
   1700000000400 - 1700000000000 < RATE_LIMIT_MS \<and>
   lastRequestTime (fst (send 1700000000000 (js ''revise'') sample_dom unconfigured_cfg initial)) =
     1700000000000 \<and>
   snd (send 1700000000000 (js ''revise'') sample_dom unconfigured_cfg initial) =
     [StorageGet,
      Toast (js ''OpenAI API key not configured. Please add it in Settings.'') (js ''error''),
      OpenSettings] \<and>
   snd (send 1700000000400 (js ''revise'') sample_dom sample_cfg
     (fst (send 1700000000000 (js ''revise'') sample_dom unconfigured_cfg initial))) =
     [rateLimitToast]"
proof -
  have h1: "RATE_LIMIT_MS \<le> 1700000000000 - lastRequestTime initial"
    by (simp add: initial_def RATE_LIMIT_MS_def)
  have h2: "trim (inputValue sample_dom) = [] \<or>
      \<not> validateProvider (providerValue sample_dom) unconfigured_cfg"
    by (simp add: sample_dom_def unconfigured_cfg_def validateProvider_def configured_def
        trim_def isWhiteSpace_def js_def)
  have h3: "(1700000000400::int) - 1700000000000 < RATE_LIMIT_MS"
    by (simp add: RATE_LIMIT_MS_def)
  have v: "\<not> validateProvider (providerValue sample_dom) unconfigured_cfg"
    by (simp add: sample_dom_def unconfigured_cfg_def validateProvider_def configured_def
        trim_def isWhiteSpace_def js_def)
  have t: "trim (inputValue sample_dom) \<noteq> []"
    by (simp add: sample_dom_def trim_def isWhiteSpace_def js_def)
  have e: "getValidationError (providerValue sample_dom) =
      js ''OpenAI API key not configured. Please add it in Settings.''"
    by (simp add: sample_dom_def getValidationError_def)
  show ?thesis
    using rejected_send_consumes_window [OF h1 h2 h3, of "js ''revise''" "js ''revise''"
        sample_dom sample_cfg] h1 h3 v t e
    by auto
qed

end
